theory Spec2Isabelle
  imports Complex_Main "HOL-Library.Word"
begin

section \<open>Lua values and the binding calling convention\<close>

text \<open>
  Objects (items, monsters) live in a heap and are named by a reference; a Lua userdata is
  a block holding one shared pointer, which may be null. A binding receives the Lua stack
  with its arguments (index 1 first), pushes values and returns the number \<open>n\<close> of
  results: the caller gets the top \<open>n\<close> values of the stack.
\<close>

type_synonym ref = nat

datatype lua_value =
    LNil
  | LBoolean bool
  | LNumber real
  | LString string
  | LUserdata nat

type_synonym lua_State = "lua_value list"

definition lua_gettop :: "lua_State \<Rightarrow> nat" where
  "lua_gettop L = length L"

definition arg :: "lua_State \<Rightarrow> nat \<Rightarrow> lua_value" where
  "arg L n = (if 1 \<le> n \<and> n \<le> length L then L ! (n - 1) else LNil)"

definition lua_return :: "lua_State \<Rightarrow> lua_value list \<Rightarrow> nat \<Rightarrow> lua_value list" where
  "lua_return L pushed n = drop (length (L @ pushed) - n) (L @ pushed)"

text \<open>
  The loader's type tests and its boolean reader are not among the sources. They are the
  tests of the Lua C API on the value's type: a number also passes for a string, every
  value but nil and false reads as true, and a reader given a default returns it when the
  argument is absent (the bindings document these defaults, as in
  \<^verbatim>\<open>item:split([count = 1])\<close>).
\<close>

definition isNumber :: "lua_value \<Rightarrow> bool" where
  "isNumber v = (case v of LNumber _ \<Rightarrow> True | _ \<Rightarrow> False)"

definition isString :: "lua_value \<Rightarrow> bool" where
  "isString v = (case v of LString _ \<Rightarrow> True | LNumber _ \<Rightarrow> True | _ \<Rightarrow> False)"

definition isBoolean :: "lua_value \<Rightarrow> bool" where
  "isBoolean v = (case v of LBoolean _ \<Rightarrow> True | _ \<Rightarrow> False)"

definition lua_toboolean :: "lua_value \<Rightarrow> bool" where
  "lua_toboolean v = (case v of LNil \<Rightarrow> False | LBoolean b \<Rightarrow> b | _ \<Rightarrow> True)"

definition getBoolean :: "lua_State \<Rightarrow> nat \<Rightarrow> bool \<Rightarrow> bool" where
  "getBoolean L n dflt = (if n > lua_gettop L then dflt else lua_toboolean (arg L n))"

section \<open>Item data model\<close>

text \<open>
  Modelled from the spec: the enums ItemAttribute_t and ItemDecayState_t are declared
  outside the sources. The attribute keys are the ones the bindings name, with every other
  key tagged by the category Section 4.3 gives it (integer-valued or string-valued); the
  decay states are the five of Section 3 under the names the bindings use, with any other
  number a script may pass kept as such. A custom value is one of the four kinds of
  Section 3.
\<close>

datatype ItemAttribute_t =
    NONE
  | ACTIONID
  | UNIQUEID
  | DURATION
  | DECAYSTATE
  | DURATION_TIMESTAMP
  | FLUIDTYPE
  | IntegerKey nat
  | StringKey nat

datatype ItemDecayState_t =
    DECAYING_FALSE
  | DECAYING_PENDING
  | DECAYING_TRUE
  | DECAYING_STOPPING
  | DECAYING_STOPPED
  | DecayOther nat

datatype CustomAttribute =
    CAInt64 "64 word"
  | CADouble real
  | CAString string
  | CABool bool

datatype attr_value =
    IntValue "64 word"
  | StrValue string
  | DecayValue ItemDecayState_t

datatype Cylinder = VirtualCylinder | Holder nat

text \<open>
  Modelled from the spec: the Item class is declared in items/item.hpp, which is not among
  the sources. Section 3 gives an item a numeric id, a stack count, typed attributes split
  into integer-valued and string-valued keys, an owner id, an open map from string keys to
  custom values, a parent and a removed state; the fields below are what the bindings read
  through getID, getItemCount, getSubType, isStackable, isRemoved and getOwnerId.
\<close>

record Item =
  getID :: "16 word"
  itemCount :: "16 word"
  subType :: int
  stackable :: bool
  removed :: bool
  parent :: "Cylinder option"
  ownerId :: nat
  attributes :: "ItemAttribute_t \<rightharpoonup> attr_value"
  customAttributes :: "string \<rightharpoonup> CustomAttribute"

text \<open>
  Modelled from the spec: isAttributeInteger and isAttributeString are declared with the
  attribute store, not among the sources. The keys the bindings name are all read or
  written as integers there; every other key is tagged with its category.
\<close>

fun isAttributeInteger :: "ItemAttribute_t \<Rightarrow> bool" where
  "isAttributeInteger NONE = False"
| "isAttributeInteger (StringKey _) = False"
| "isAttributeInteger _ = True"

fun isAttributeString :: "ItemAttribute_t \<Rightarrow> bool" where
  "isAttributeString (StringKey _) = True"
| "isAttributeString _ = False"

section \<open>Collaborators\<close>

text \<open>
  Calls that leave the bindings (error reporting, the decay engine, tile flags, the game's
  notifications, the logger) are recorded in call order; what the collaborator does inside
  is not part of this model. getErrorDesc is not among the sources either: a reported error
  is kept as the text the binding gives or as the error code it asks the description of.
\<close>

datatype ErrorCode_t =
    LUA_ERROR_ITEM_NOT_FOUND
  | LUA_ERROR_MONSTER_NOT_FOUND
  | LUA_ERROR_PLAYER_NOT_FOUND

datatype error_text = Text string | ErrorDesc ErrorCode_t

datatype Call =
    ReportError error_text
  | StopDecay ref
  | StartDecay ref
  | UpdateTileFlags ref
  | UpdateCreatureIcon ref
  | SendUpdateCreature ref

datatype CreatureIconModifications_t = Influenced | Fiendish

record CreatureIcon =
  modification :: CreatureIconModifications_t
  badge :: "8 word"

text \<open>
  Modelled from the spec: the Monster class is declared in creatures/monsters/monster.hpp,
  not among the sources. Section 4.5 gives a monster four hazard flags that are plain
  get/set fields, a forge stack counter and a derived status icon stored under a name.
\<close>

record Monster =
  monsterName :: string
  hazard :: bool
  hazardCrit :: bool
  hazardDodge :: bool
  hazardDamageBoost :: bool
  hazardDefenseBoost :: bool
  forgeStack :: "16 word"
  icons :: "string \<rightharpoonup> CreatureIcon"

record Vocation =
  vocationId :: "16 word"

text \<open>
  The world the bindings act on: the heaps of items, monsters and vocations, the Lua
  userdata blocks (each holds a shared pointer, possibly null), the handle map, handle
  counter and temporary items of the active script environment, and the calls made to
  collaborators so far.
\<close>

record World =
  items :: "ref \<rightharpoonup> Item"
  monsters :: "ref \<rightharpoonup> Monster"
  vocations :: "ref \<rightharpoonup> Vocation"
  userdata :: "nat \<rightharpoonup> ref option"
  userdataTop :: nat
  localMap :: "nat \<rightharpoonup> ref"
  lastUID :: nat
  tempItems :: "ref list"
  calls :: "Call list"

definition call :: "Call \<Rightarrow> World \<Rightarrow> World" where
  "call c w = w\<lparr>calls := calls w @ [c]\<rparr>"

definition reportErrorFunc :: "error_text \<Rightarrow> World \<Rightarrow> World" where
  "reportErrorFunc msg w = call (ReportError msg) w"

text \<open>
  The loader's reading primitives (getNumber at each type, getString), the string and
  number tables of the attribute and decay-state enums and the item type table are not
  among the sources: they are parameters of every binding that uses them.
\<close>

record ItemType =
  typeStackable :: bool
  stackSize :: int

record Loader =
  getNumber_u16 :: "lua_value \<Rightarrow> 16 word"
  getNumber_u32 :: "lua_value \<Rightarrow> nat"
  getNumber_i32 :: "lua_value \<Rightarrow> int"
  getNumber_i64 :: "lua_value \<Rightarrow> 64 word"
  getNumber_double :: "lua_value \<Rightarrow> real"
  getNumber_attribute :: "lua_value \<Rightarrow> ItemAttribute_t"
  getNumber_decayState :: "lua_value \<Rightarrow> ItemDecayState_t"
  getString :: "lua_value \<Rightarrow> string"
  stringToItemAttribute :: "string \<Rightarrow> ItemAttribute_t"
  getItemIdByName :: "string \<Rightarrow> 16 word"
  itemTypes :: "16 word \<Rightarrow> ItemType"

text \<open>
  getRawUserDataShared yields the userdata block itself (null when the argument is not a
  userdata); getUserdataShared yields the pointer the block holds, which is null when the
  argument is not a userdata of the wanted class or holds no object.
\<close>

definition getRawUserData :: "World \<Rightarrow> lua_value \<Rightarrow> nat option" where
  "getRawUserData w v =
     (case v of
        LUserdata u \<Rightarrow> (case userdata w u of Some _ \<Rightarrow> Some u | None \<Rightarrow> None)
      | _ \<Rightarrow> None)"

definition getUserdataShared_Item :: "World \<Rightarrow> lua_value \<Rightarrow> ref option" where
  "getUserdataShared_Item w v =
     (case v of
        LUserdata u \<Rightarrow>
          (case userdata w u of
             Some (Some r) \<Rightarrow> (case items w r of Some _ \<Rightarrow> Some r | None \<Rightarrow> None)
           | _ \<Rightarrow> None)
      | _ \<Rightarrow> None)"

definition getUserdataShared_Monster :: "World \<Rightarrow> lua_value \<Rightarrow> ref option" where
  "getUserdataShared_Monster w v =
     (case v of
        LUserdata u \<Rightarrow>
          (case userdata w u of
             Some (Some r) \<Rightarrow> (case monsters w r of Some _ \<Rightarrow> Some r | None \<Rightarrow> None)
           | _ \<Rightarrow> None)
      | _ \<Rightarrow> None)"

definition getUserdataShared_Vocation :: "World \<Rightarrow> lua_value \<Rightarrow> ref option" where
  "getUserdataShared_Vocation w v =
     (case v of
        LUserdata u \<Rightarrow>
          (case userdata w u of
             Some (Some r) \<Rightarrow> (case vocations w r of Some _ \<Rightarrow> Some r | None \<Rightarrow> None)
           | _ \<Rightarrow> None)
      | _ \<Rightarrow> None)"

section \<open>Item attribute operations\<close>

text \<open>
  Modelled from the spec: the Item methods setAttribute, removeAttribute, setDecaying,
  setDuration, setCustomAttribute and getCustomAttribute are not among the sources.
  Section 4.3 describes them as get/set/remove on the typed attribute store and on the
  custom map; they are plain writes to the item's own maps. updateTileFlags notifies the
  map collaborator.
\<close>

definition updItem :: "ref \<Rightarrow> (Item \<Rightarrow> Item) \<Rightarrow> World \<Rightarrow> World" where
  "updItem r f w =
     (case items w r of
        None \<Rightarrow> w
      | Some it \<Rightarrow> w\<lparr>items := (items w)(r \<mapsto> f it)\<rparr>)"

definition setAttribute :: "ref \<Rightarrow> ItemAttribute_t \<Rightarrow> attr_value \<Rightarrow> World \<Rightarrow> World" where
  "setAttribute r a v w = updItem r (\<lambda>it. it\<lparr>attributes := (attributes it)(a \<mapsto> v)\<rparr>) w"

definition removeAttribute :: "ref \<Rightarrow> ItemAttribute_t \<Rightarrow> World \<Rightarrow> World" where
  "removeAttribute r a w = updItem r (\<lambda>it. it\<lparr>attributes := (attributes it)(a := None)\<rparr>) w"

definition setDecaying :: "ref \<Rightarrow> ItemDecayState_t \<Rightarrow> World \<Rightarrow> World" where
  "setDecaying r s w = setAttribute r DECAYSTATE (DecayValue s) w"

definition setDuration :: "ref \<Rightarrow> int \<Rightarrow> World \<Rightarrow> World" where
  "setDuration r d w = setAttribute r DURATION (IntValue (word_of_int d)) w"

definition updateTileFlags :: "ref \<Rightarrow> World \<Rightarrow> World" where
  "updateTileFlags r w = call (UpdateTileFlags r) w"

definition setCustomAttribute :: "ref \<Rightarrow> string \<Rightarrow> CustomAttribute \<Rightarrow> World \<Rightarrow> World" where
  "setCustomAttribute r k v w =
     updItem r (\<lambda>it. it\<lparr>customAttributes := (customAttributes it)(k \<mapsto> v)\<rparr>) w"

definition getCustomAttribute :: "World \<Rightarrow> ref \<Rightarrow> string \<Rightarrow> CustomAttribute option" where
  "getCustomAttribute w r k =
     (case items w r of None \<Rightarrow> None | Some it \<Rightarrow> customAttributes it k)"

text \<open>
  The key argument of hasAttribute, getAttribute, setAttribute and removeAttribute is
  resolved by the same three-way test in each of them.
\<close>

definition resolveAttribute :: "Loader \<Rightarrow> lua_value \<Rightarrow> ItemAttribute_t" where
  "resolveAttribute ld v =
     (if isNumber v then getNumber_attribute ld v
      else if isString v then stringToItemAttribute ld (getString ld v)
      else NONE)"

definition msg_set_duration_timestamp :: string where
  "msg_set_duration_timestamp =
     ''Attempt to set protected key '' @ [CHR 0x22] @ ''duration timestamp'' @ [CHR 0x22]"

definition msg_erase_duration_timestamp :: string where
  "msg_erase_duration_timestamp =
     ''Attempt to erase protected key '' @ [CHR 0x22] @ ''duration timestamp'' @ [CHR 0x22]"

definition msg_erase_uid :: string where
  "msg_erase_uid = ''Attempt to erase protected key '' @ [CHR 0x22] @ ''uid'' @ [CHR 0x22]"

definition luaItemSetAttribute :: "Loader \<Rightarrow> lua_State \<Rightarrow> World \<Rightarrow> lua_value list \<times> World" where
  "luaItemSetAttribute ld L w =
     (case getUserdataShared_Item w (arg L 1) of
        None \<Rightarrow> (lua_return L [LNil] 1, w)
      | Some item \<Rightarrow>
          (let attribute = resolveAttribute ld (arg L 2) in
           if isAttributeInteger attribute then
             (case attribute of
                DECAYSTATE \<Rightarrow>
                  (let decayState = getNumber_decayState ld (arg L 3) in
                   if decayState = DECAYING_FALSE \<or> decayState = DECAYING_STOPPING
                   then (lua_return L [LBoolean True] 1, call (StopDecay item) w)
                   else (lua_return L [LBoolean True] 1, call (StartDecay item) w))
              | DURATION \<Rightarrow>
                  (lua_return L [LBoolean True] 1,
                   call (StartDecay item)
                     (setDuration item (getNumber_i32 ld (arg L 3))
                       (setDecaying item DECAYING_PENDING w)))
              | DURATION_TIMESTAMP \<Rightarrow>
                  (lua_return L [LBoolean False] 1,
                   reportErrorFunc (Text msg_set_duration_timestamp) w)
              | _ \<Rightarrow>
                  (lua_return L [LBoolean True] 1,
                   updateTileFlags item
                     (setAttribute item attribute (IntValue (getNumber_i64 ld (arg L 3))) w)))
           else if isAttributeString attribute then
             (lua_return L [LBoolean True] 1,
              updateTileFlags item
                (setAttribute item attribute (StrValue (getString ld (arg L 3))) w))
           else (lua_return L [LNil] 1, w)))"

definition luaItemRemoveAttribute :: "Loader \<Rightarrow> lua_State \<Rightarrow> World \<Rightarrow> lua_value list \<times> World" where
  "luaItemRemoveAttribute ld L w =
     (case getUserdataShared_Item w (arg L 1) of
        None \<Rightarrow> (lua_return L [LNil] 1, w)
      | Some item \<Rightarrow>
          (let attribute = resolveAttribute ld (arg L 2) in
           if attribute \<noteq> UNIQUEID then
             (if attribute \<noteq> DURATION_TIMESTAMP
              then (lua_return L [LBoolean True] 1, removeAttribute item attribute w)
              else (lua_return L [LBoolean False] 1,
                    reportErrorFunc (Text msg_erase_duration_timestamp) w))
           else (lua_return L [LBoolean False] 1, reportErrorFunc (Text msg_erase_uid) w)))"


section \<open>Custom attributes\<close>

text \<open>
  std::to_string on a 64-bit signed integer: the decimal digits, with a leading minus sign
  for a negative value.
\<close>

definition digit_char :: "nat \<Rightarrow> char" where
  "digit_char d = ''0123456789'' ! d"

function dec_digits :: "nat \<Rightarrow> string" where
  "dec_digits n = (if n < 10 then [digit_char n] else dec_digits (n div 10) @ [digit_char (n mod 10)])"
  by pat_completeness auto
termination
  by (relation "measure (\<lambda>n. n)") auto

definition to_string :: "int \<Rightarrow> string" where
  "to_string i = (if i < 0 then CHR ''-'' # dec_digits (nat (- i)) else dec_digits (nat i))"

text \<open>
  Modelled from the spec: CustomAttribute::pushToLua is not among the sources. Section 3
  makes a custom value one of Int64, Double, String and Bool; each is handed to the script
  as the Lua value of its kind, the two numeric kinds as a Lua number.
\<close>

fun pushToLua :: "CustomAttribute \<Rightarrow> lua_value" where
  "pushToLua (CAInt64 i) = LNumber (of_int (sint i))"
| "pushToLua (CADouble d) = LNumber d"
| "pushToLua (CAString s) = LString s"
| "pushToLua (CABool b) = LBoolean b"

definition pushCustomAttribute :: "CustomAttribute option \<Rightarrow> lua_value" where
  "pushCustomAttribute c = (case c of Some customAttribute \<Rightarrow> pushToLua customAttribute | None \<Rightarrow> LNil)"

text \<open>
  The key of the custom attribute bindings, resolved by the same test in get, set and
  remove: a numeric key is rendered by std::to_string of the 64-bit integer read, a string
  key is taken as it is, and with any other key the binding returns nil.
\<close>

definition customKey :: "Loader \<Rightarrow> lua_value \<Rightarrow> string option" where
  "customKey ld v =
     (if isNumber v then Some (to_string (sint (getNumber_i64 ld v)))
      else if isString v then Some (getString ld v)
      else None)"

definition luaItemGetCustomAttribute :: "Loader \<Rightarrow> lua_State \<Rightarrow> World \<Rightarrow> lua_value list \<times> World" where
  "luaItemGetCustomAttribute ld L w =
     (case getUserdataShared_Item w (arg L 1) of
        None \<Rightarrow> (lua_return L [LNil] 1, w)
      | Some item \<Rightarrow>
          (case customKey ld (arg L 2) of
             None \<Rightarrow> (lua_return L [LNil] 1, w)
           | Some key \<Rightarrow>
               (lua_return L [pushCustomAttribute (getCustomAttribute w item key)] 1, w)))"

definition luaItemSetCustomAttribute :: "Loader \<Rightarrow> lua_State \<Rightarrow> World \<Rightarrow> lua_value list \<times> World" where
  "luaItemSetCustomAttribute ld L w =
     (case getUserdataShared_Item w (arg L 1) of
        None \<Rightarrow> (lua_return L [LNil] 1, w)
      | Some item \<Rightarrow>
          (case customKey ld (arg L 2) of
             None \<Rightarrow> (lua_return L [LNil] 1, w)
           | Some key \<Rightarrow>
               (if isNumber (arg L 3) then
                  (let doubleValue = getNumber_double ld (arg L 3) in
                   if of_int \<lfloor>doubleValue\<rfloor> < doubleValue
                   then (lua_return L [LBoolean True] 1,
                         setCustomAttribute item key (CADouble doubleValue) w)
                   else (lua_return L [LBoolean True] 1,
                         setCustomAttribute item key (CAInt64 (getNumber_i64 ld (arg L 3))) w))
                else if isString (arg L 3) then
                  (lua_return L [LBoolean True] 1,
                   setCustomAttribute item key (CAString (getString ld (arg L 3))) w)
                else if isBoolean (arg L 3) then
                  (lua_return L [LBoolean True] 1,
                   setCustomAttribute item key (CABool (lua_toboolean (arg L 3))) w)
                else (lua_return L [LNil] 1, w))))"

section \<open>The handle registry of the script environment\<close>

text \<open>
  Modelled from the spec: ScriptEnvironment (addThing, getItemByUID, insertItem,
  removeItemByUID, addTempItem) is not among the sources. Section 4.2 gives the contract:
  addHandle returns the item's handle and allocates one on first request, resolve looks a
  handle up, rebind makes the handle resolve to the new item, and temporary items are
  registered for the current call. Handles are allocated from a counter, so the search for
  an existing handle runs over the handles issued so far.
\<close>

definition addThing :: "ref \<Rightarrow> World \<Rightarrow> nat \<times> World" where
  "addThing item w =
     (case find (\<lambda>uid. localMap w uid = Some item) [1..<Suc (lastUID w)] of
        Some uid \<Rightarrow> (uid, w)
      | None \<Rightarrow>
          (Suc (lastUID w),
           w\<lparr>localMap := (localMap w)(Suc (lastUID w) \<mapsto> item), lastUID := Suc (lastUID w)\<rparr>))"

definition getItemByUID :: "World \<Rightarrow> nat \<Rightarrow> ref option" where
  "getItemByUID w uid = localMap w uid"

definition removeItemByUID :: "nat \<Rightarrow> World \<Rightarrow> World" where
  "removeItemByUID uid w = w\<lparr>localMap := (localMap w)(uid := None)\<rparr>"

definition insertItem :: "nat \<Rightarrow> ref \<Rightarrow> World \<Rightarrow> World" where
  "insertItem uid item w = w\<lparr>localMap := (localMap w)(uid \<mapsto> item)\<rparr>"

definition addTempItem :: "ref \<Rightarrow> World \<Rightarrow> World" where
  "addTempItem item w = w\<lparr>tempItems := tempItems w @ [item]\<rparr>"

text \<open>
  pushUserdata allocates a new userdata block for the pointer it is given; the metatable
  the binding then attaches names the class for the script and is not part of this model.
\<close>

definition pushUserdata :: "ref \<Rightarrow> World \<Rightarrow> lua_value \<times> World" where
  "pushUserdata r w =
     (LUserdata (userdataTop w),
      w\<lparr>userdata := (userdata w)(userdataTop w \<mapsto> Some r), userdataTop := Suc (userdataTop w)\<rparr>)"

definition luaItemCreate :: "Loader \<Rightarrow> lua_State \<Rightarrow> World \<Rightarrow> lua_value list \<times> World" where
  "luaItemCreate ld L w =
     (let id = getNumber_u32 ld (arg L 2) in
      case getItemByUID w id of
        Some item \<Rightarrow> (let (v, w') = pushUserdata item w in (lua_return L [v] 1, w'))
      | None \<Rightarrow> (lua_return L [LNil] 1, w))"

section \<open>Split and transform\<close>

text \<open>
  Game::transformItem and Item::clone are not among the sources: they are parameters. Each
  takes the world and returns a possibly null item together with the world it leaves.
\<close>

record Game =
  transformItem :: "ref \<Rightarrow> 16 word \<Rightarrow> int \<Rightarrow> World \<Rightarrow> ref option \<times> World"
  clone :: "ref \<Rightarrow> World \<Rightarrow> ref option \<times> World"

text \<open>
  A shared pointer that is not null keeps its object in the heap: derefItem is the item
  behind a userdata block, getItem reads an item through a pointer known to be good, and
  isRemoved is the removed state of an item (an object that is no longer in the heap
  counts as removed).
\<close>

definition derefItem :: "World \<Rightarrow> nat \<Rightarrow> (ref \<times> Item) option" where
  "derefItem w u =
     (case userdata w u of
        Some (Some r) \<Rightarrow> (case items w r of Some it \<Rightarrow> Some (r, it) | None \<Rightarrow> None)
      | _ \<Rightarrow> None)"

definition getItem :: "World \<Rightarrow> ref \<Rightarrow> Item \<Rightarrow> Item" where
  "getItem w r it0 = (case items w r of Some it \<Rightarrow> it | None \<Rightarrow> it0)"

definition isRemoved :: "World \<Rightarrow> ref \<Rightarrow> bool" where
  "isRemoved w r = (case items w r of Some it \<Rightarrow> removed it | None \<Rightarrow> True)"

definition getNumberOr :: "(lua_value \<Rightarrow> 'a) \<Rightarrow> lua_State \<Rightarrow> nat \<Rightarrow> 'a \<Rightarrow> 'a" where
  "getNumberOr rd L n dflt = (if n > lua_gettop L then dflt else rd (arg L n))"

text \<open>
  The part that split and transform share, written out in both: take the handle, run the
  mutation, drop the handle if the item is now removed, bind it to a new item that differs
  from the old one, and store the result in the userdata block.
\<close>

definition rebindAfter :: "nat \<Rightarrow> ref \<Rightarrow> ref option \<Rightarrow> World \<Rightarrow> World" where
  "rebindAfter uid item newItem w =
     (let w1 = (if isRemoved w item then removeItemByUID uid w else w) in
      case newItem of
        Some n \<Rightarrow> (if n \<noteq> item then insertItem uid n w1 else w1)
      | None \<Rightarrow> w1)"

definition luaItemTransform :: "Game \<Rightarrow> Loader \<Rightarrow> lua_State \<Rightarrow> World \<Rightarrow> lua_value list \<times> World" where
  "luaItemTransform g ld L w =
     (case getRawUserData w (arg L 1) of
        None \<Rightarrow> (lua_return L [LNil] 1, w)
      | Some itemPtr \<Rightarrow>
          (case derefItem w itemPtr of
             None \<Rightarrow> (lua_return L [LNil] 1, w)
           | Some (item, it) \<Rightarrow>
               (let itemId = (if isNumber (arg L 2) then getNumber_u16 ld (arg L 2)
                              else getItemIdByName ld (getString ld (arg L 2))) in
                if \<not> isNumber (arg L 2) \<and> itemId = 0 then (lua_return L [LNil] 1, w)
                else
                  (let subType0 = getNumberOr (getNumber_i32 ld) L 3 (- 1) in
                   if getID it = itemId \<and> (subType0 = - 1 \<or> subType0 = subType it)
                   then (lua_return L [LBoolean True] 1, w)
                   else
                     (let ty = itemTypes ld itemId;
                          subType1 = (if typeStackable ty then min subType0 (stackSize ty)
                                      else subType0);
                          (uid, w1) = addThing item w;
                          (newItem, w2) = transformItem g item itemId subType1 w1;
                          w3 = rebindAfter uid item newItem w2;
                          w4 = w3\<lparr>userdata := (userdata w3)(itemPtr \<mapsto> newItem)\<rparr>
                      in (lua_return L [LBoolean True] 1, w4))))))"

definition setItemCount :: "ref \<Rightarrow> 16 word \<Rightarrow> World \<Rightarrow> World" where
  "setItemCount r c w = updItem r (\<lambda>it. it\<lparr>itemCount := c\<rparr>) w"

definition setParent :: "ref \<Rightarrow> Cylinder \<Rightarrow> World \<Rightarrow> World" where
  "setParent r c w = updItem r (\<lambda>it. it\<lparr>parent := Some c\<rparr>) w"

definition luaItemSplit :: "Game \<Rightarrow> Loader \<Rightarrow> lua_State \<Rightarrow> World \<Rightarrow> lua_value list \<times> World" where
  "luaItemSplit g ld L w =
     (case getRawUserData w (arg L 1) of
        None \<Rightarrow> (lua_return L [LNil] 1, w)
      | Some itemPtr \<Rightarrow>
          (case derefItem w itemPtr of
             None \<Rightarrow> (lua_return L [LNil] 1, w)
           | Some (item, it) \<Rightarrow>
               (if \<not> stackable it \<or> removed it then (lua_return L [LNil] 1, w)
                else
                  (let count = min (getNumberOr (getNumber_u16 ld) L 2 1) (itemCount it);
                       diff = itemCount it - count;
                       (splitItem, wc) = clone g item w
                   in case splitItem of
                        None \<Rightarrow> (lua_return L [LNil] 1, wc)
                      | Some split \<Rightarrow>
                          (let w0 = setItemCount split count wc;
                               (uid, w1) = addThing item w0;
                               (newItem, w2) =
                                 transformItem g item (getID (getItem w1 item it)) (uint diff) w1;
                               w3 = rebindAfter uid item newItem w2;
                               w4 = w3\<lparr>userdata := (userdata w3)(itemPtr \<mapsto> newItem)\<rparr>;
                               w5 = addTempItem split (setParent split VirtualCylinder w4);
                               (v, w6) = pushUserdata split w5
                           in (lua_return L [v] 1, w6))))))"


section \<open>Monster bindings\<close>

text \<open>
  Modelled from the spec: the Monster accessors (setForgeStack, setIcon, getName and the
  hazard getters and setters) are not among the sources. Section 4.5 makes each a read or
  a write of the monster's own field.
\<close>

definition updMonster :: "ref \<Rightarrow> (Monster \<Rightarrow> Monster) \<Rightarrow> World \<Rightarrow> World" where
  "updMonster r f w =
     (case monsters w r of
        None \<Rightarrow> w
      | Some m \<Rightarrow> w\<lparr>monsters := (monsters w)(r \<mapsto> f m)\<rparr>)"

definition readMonster :: "World \<Rightarrow> ref \<Rightarrow> (Monster \<Rightarrow> 'a) \<Rightarrow> 'a \<Rightarrow> 'a" where
  "readMonster w r f dflt = (case monsters w r of None \<Rightarrow> dflt | Some m \<Rightarrow> f m)"

definition setForgeStack :: "ref \<Rightarrow> 16 word \<Rightarrow> World \<Rightarrow> World" where
  "setForgeStack r s w = updMonster r (\<lambda>m. m\<lparr>forgeStack := s\<rparr>) w"

definition setIcon :: "ref \<Rightarrow> string \<Rightarrow> CreatureIcon \<Rightarrow> World \<Rightarrow> World" where
  "setIcon r key icon w = updMonster r (\<lambda>m. m\<lparr>icons := (icons m)(key \<mapsto> icon)\<rparr>) w"

definition luaMonsterSetForgeStack :: "Loader \<Rightarrow> lua_State \<Rightarrow> World \<Rightarrow> lua_value list \<times> World" where
  "luaMonsterSetForgeStack ld L w =
     (let stack = getNumberOr (getNumber_u16 ld) L 2 0 in
      case getUserdataShared_Monster w (arg L 1) of
        None \<Rightarrow>
          (lua_return L [LBoolean False] 0,
           reportErrorFunc (ErrorDesc LUA_ERROR_MONSTER_NOT_FOUND) w)
      | Some monster \<Rightarrow>
          (let w1 = setForgeStack monster stack w;
               icon = (if stack < 15 then Influenced else Fiendish);
               w2 = setIcon monster ''forge''
                      \<lparr>modification = icon,
                       badge = (if icon = Influenced then ucast stack else 0)\<rparr> w1;
               w3 = call (UpdateCreatureIcon monster) w2;
               w4 = call (SendUpdateCreature monster) w3
           in (lua_return L [] 1, w4)))"

definition luaMonsterGetName :: "lua_State \<Rightarrow> World \<Rightarrow> lua_value list \<times> World" where
  "luaMonsterGetName L w =
     (case getUserdataShared_Monster w (arg L 1) of
        None \<Rightarrow>
          (lua_return L [LBoolean False] 0,
           reportErrorFunc (ErrorDesc LUA_ERROR_MONSTER_NOT_FOUND) w)
      | Some monster \<Rightarrow> (lua_return L [LString (readMonster w monster monsterName [])] 1, w))"

definition luaMonsterHazard :: "lua_State \<Rightarrow> World \<Rightarrow> lua_value list \<times> World" where
  "luaMonsterHazard L w =
     (let hazard' = getBoolean L 2 False in
      case getUserdataShared_Monster w (arg L 1) of
        Some monster \<Rightarrow>
          (if lua_gettop L = 1
           then (lua_return L [LBoolean (readMonster w monster hazard False)] 1, w)
           else (let w1 = updMonster monster (\<lambda>m. m\<lparr>hazard := hazard'\<rparr>) w
                 in (lua_return L [LBoolean (readMonster w1 monster hazard False)] 1, w1)))
      | None \<Rightarrow> (lua_return L [LNil] 1, w))"

definition luaMonsterHazardCrit :: "lua_State \<Rightarrow> World \<Rightarrow> lua_value list \<times> World" where
  "luaMonsterHazardCrit L w =
     (let hazardCrit' = getBoolean L 2 False in
      case getUserdataShared_Monster w (arg L 1) of
        Some monster \<Rightarrow>
          (if lua_gettop L = 1
           then (lua_return L [LBoolean (readMonster w monster hazardCrit False)] 1, w)
           else (let w1 = updMonster monster (\<lambda>m. m\<lparr>hazardCrit := hazardCrit'\<rparr>) w
                 in (lua_return L [LBoolean (readMonster w1 monster hazardCrit False)] 1, w1)))
      | None \<Rightarrow> (lua_return L [LNil] 1, w))"

definition luaMonsterHazardDodge :: "lua_State \<Rightarrow> World \<Rightarrow> lua_value list \<times> World" where
  "luaMonsterHazardDodge L w =
     (let hazardDodge' = getBoolean L 2 False in
      case getUserdataShared_Monster w (arg L 1) of
        Some monster \<Rightarrow>
          (if lua_gettop L = 1
           then (lua_return L [LBoolean (readMonster w monster hazardDodge False)] 1, w)
           else (let w1 = updMonster monster (\<lambda>m. m\<lparr>hazardDodge := hazardDodge'\<rparr>) w
                 in (lua_return L [LBoolean (readMonster w1 monster hazardDodge False)] 1, w1)))
      | None \<Rightarrow> (lua_return L [LNil] 1, w))"

definition luaMonsterHazardDamageBoost :: "lua_State \<Rightarrow> World \<Rightarrow> lua_value list \<times> World" where
  "luaMonsterHazardDamageBoost L w =
     (let hazardDamageBoost' = getBoolean L 2 False in
      case getUserdataShared_Monster w (arg L 1) of
        Some monster \<Rightarrow>
          (if lua_gettop L = 1
           then (lua_return L [LBoolean (readMonster w monster hazardDamageBoost False)] 1, w)
           else (let w1 = updMonster monster (\<lambda>m. m\<lparr>hazardDamageBoost := hazardDamageBoost'\<rparr>) w
                 in (lua_return L [LBoolean (readMonster w1 monster hazardDamageBoost False)] 1, w1)))
      | None \<Rightarrow> (lua_return L [LNil] 1, w))"

definition luaMonsterHazardDefenseBoost :: "lua_State \<Rightarrow> World \<Rightarrow> lua_value list \<times> World" where
  "luaMonsterHazardDefenseBoost L w =
     (let hazardDefenseBoost' = getBoolean L 2 False in
      case getUserdataShared_Monster w (arg L 1) of
        Some monster \<Rightarrow>
          (if lua_gettop L = 1
           then (lua_return L [LBoolean (readMonster w monster hazardDefenseBoost False)] 1, w)
           else (let w1 = updMonster monster (\<lambda>m. m\<lparr>hazardDefenseBoost := hazardDefenseBoost'\<rparr>) w
                 in (lua_return L [LBoolean (readMonster w1 monster hazardDefenseBoost False)] 1, w1)))
      | None \<Rightarrow> (lua_return L [LNil] 1, w))"

section \<open>The script call gate and the creature callback\<close>

datatype CreatureKind = IsNpc | IsMonster | IsPlayer | IsOther

record Creature =
  kind :: CreatureKind
  creatureName :: string

record ScriptEnvironment =
  scriptId :: int

text \<open>
  Modelled from the spec: LuaScriptInterface (reserveScriptEnv, resetScriptEnv,
  getScriptEnv, pushFunction) is not among the sources. Section 4.1 gives the gate: enter
  fails when the nesting depth has reached the configured maximum and otherwise pushes a
  new environment on a depth-tracked stack; leave pops it and makes the parent scope
  active again.
\<close>

record ScriptInterface =
  scriptEnv :: "ScriptEnvironment list"
  maxDepth :: nat
  pushedFunctions :: "int list"
  logged :: "(string \<times> string list) list"

definition reserveScriptEnv :: "ScriptInterface \<Rightarrow> bool \<times> ScriptInterface" where
  "reserveScriptEnv s =
     (if maxDepth s \<le> length (scriptEnv s) then (False, s)
      else (True, s\<lparr>scriptEnv := \<lparr>scriptId = 0\<rparr> # scriptEnv s\<rparr>))"

definition resetScriptEnv :: "ScriptInterface \<Rightarrow> ScriptInterface" where
  "resetScriptEnv s = s\<lparr>scriptEnv := tl (scriptEnv s)\<rparr>"

definition setScriptId :: "int \<Rightarrow> ScriptInterface \<Rightarrow> ScriptInterface" where
  "setScriptId i s =
     (case scriptEnv s of
        [] \<Rightarrow> s
      | e # es \<Rightarrow> s\<lparr>scriptEnv := e\<lparr>scriptId := i\<rparr> # es\<rparr>)"

definition pushFunction :: "int \<Rightarrow> ScriptInterface \<Rightarrow> ScriptInterface" where
  "pushFunction i s = s\<lparr>pushedFunctions := pushedFunctions s @ [i]\<rparr>"

record CreatureCallback =
  m_targetCreature :: "Creature option"
  params :: nat

datatype fault = NullDereference

definition getCreatureClass :: "Creature option \<Rightarrow> string" where
  "getCreatureClass creature =
     (case creature of
        None \<Rightarrow> []
      | Some c \<Rightarrow>
          (if kind c = IsNpc then ''Npc''
           else if kind c = IsMonster then ''Monster''
           else if kind c = IsPlayer then ''Player''
           else []))"

definition msg_stack_overflow :: string where
  "msg_stack_overflow =
     ''[CreatureCallback::startScriptInterface] - {} {} Call stack overflow. Too many lua script calls being nested.''"

text \<open>
  The callback holds its target creature by a weak pointer; \<open>m_targetCreature\<close> is what
  locking it yields. The overflow branch reads the creature's name through that pointer
  without a test, so with a dead target it dereferences null.
\<close>

definition startScriptInterface ::
  "CreatureCallback \<Rightarrow> int \<Rightarrow> ScriptInterface \<Rightarrow> fault + (bool \<times> ScriptInterface)" where
  "startScriptInterface cb scriptId' s =
     (if scriptId' = - 1 then Inr (False, s)
      else
        (let (reserved, s1) = reserveScriptEnv s in
         if \<not> reserved then
           (case m_targetCreature cb of
              None \<Rightarrow> Inl NullDereference
            | Some targetCreature \<Rightarrow>
                Inr (False,
                     s1\<lparr>logged := logged s1 @
                        [(msg_stack_overflow,
                          [getCreatureClass (Some targetCreature), creatureName targetCreature])]\<rparr>))
         else Inr (True, pushFunction scriptId' (setScriptId scriptId' s1))))"


section \<open>Reading an item's typed attribute\<close>

definition itemAttribute :: "World \<Rightarrow> ref \<Rightarrow> ItemAttribute_t \<Rightarrow> attr_value option" where
  "itemAttribute w r a = (case items w r of None \<Rightarrow> None | Some it \<Rightarrow> attributes it a)"

section \<open>Sample data for the closed instances\<close>

text \<open>
  A loader that reads a Lua number by rounding down and knows a handful of attribute keys, an
  item type table with one stackable type, and a world holding one stack of ten coins
  behind userdata block 0.
\<close>

definition sampleLoader :: Loader where
  "sampleLoader =
     \<lparr>getNumber_u16 = (\<lambda>v. case v of LNumber x \<Rightarrow> word_of_int \<lfloor>x\<rfloor> | _ \<Rightarrow> 0),
      getNumber_u32 = (\<lambda>v. case v of LNumber x \<Rightarrow> nat \<lfloor>x\<rfloor> | _ \<Rightarrow> 0),
      getNumber_i32 = (\<lambda>v. case v of LNumber x \<Rightarrow> \<lfloor>x\<rfloor> | _ \<Rightarrow> 0),
      getNumber_i64 = (\<lambda>v. case v of LNumber x \<Rightarrow> word_of_int \<lfloor>x\<rfloor> | _ \<Rightarrow> 0),
      getNumber_double = (\<lambda>v. case v of LNumber x \<Rightarrow> x | _ \<Rightarrow> 0),
      getNumber_attribute =
        (\<lambda>v. case v of
           LNumber x \<Rightarrow>
             (if x = 2 then ACTIONID else if x = 3 then UNIQUEID else if x = 19 then DURATION
              else if x = 20 then DECAYSTATE else if x = 29 then DURATION_TIMESTAMP
              else if x = 4 then StringKey 4 else NONE)
         | _ \<Rightarrow> NONE),
      getNumber_decayState =
        (\<lambda>v. case v of
           LNumber x \<Rightarrow>
             (if x = 0 then DECAYING_FALSE else if x = 1 then DECAYING_TRUE
              else if x = 2 then DECAYING_PENDING else if x = 3 then DECAYING_STOPPING
              else DecayOther (nat \<lfloor>x\<rfloor>))
         | _ \<Rightarrow> DECAYING_FALSE),
      getString = (\<lambda>v. case v of LString s \<Rightarrow> s | _ \<Rightarrow> []),
      stringToItemAttribute =
        (\<lambda>s. if s = ''uid'' then UNIQUEID else if s = ''duration'' then DURATION else NONE),
      getItemIdByName = (\<lambda>s. if s = ''gold coin'' then 3031 else 0),
      itemTypes = (\<lambda>i. \<lparr>typeStackable = (i = 3031), stackSize = 100\<rparr>)\<rparr>"

definition sampleItem :: Item where
  "sampleItem =
     \<lparr>getID = 3031, itemCount = 10, subType = 10, stackable = True, removed = False,
      parent = Some (Holder 1), ownerId = 0, attributes = Map.empty,
      customAttributes = Map.empty\<rparr>"

definition sampleWorld :: World where
  "sampleWorld =
     \<lparr>items = [7 \<mapsto> sampleItem], monsters = Map.empty, vocations = Map.empty,
      userdata = [0 \<mapsto> Some 7],
      userdataTop = 1, localMap = Map.empty, lastUID = 0, tempItems = [], calls = []\<rparr>"

section \<open>Handles that survive a mutation\<close>

text \<open>
  What the claims say about handles, as predicates on the world: an item holds exactly one
  handle; no handle resolves to a removed item; and the state of the handle after a
  mutation that returned \<open>newItem\<close> and left the world \<open>w2\<close>.
\<close>

definition holdsHandle :: "World \<Rightarrow> ref \<Rightarrow> nat \<Rightarrow> bool" where
  "holdsHandle w item uid =
     (1 \<le> uid \<and> uid \<le> lastUID w \<and> (\<forall>h. (localMap w h = Some item) = (h = uid)))"

definition noDanglingHandle :: "World \<Rightarrow> bool" where
  "noDanglingHandle w = (\<forall>h r. getItemByUID w h = Some r \<longrightarrow> \<not> isRemoved w r)"

definition handleOutcome :: "nat \<Rightarrow> ref \<Rightarrow> ref option \<Rightarrow> World \<Rightarrow> World \<Rightarrow> bool" where
  "handleOutcome uid item newItem w2 w' =
     ((\<forall>n. newItem = Some n \<and> n \<noteq> item \<longrightarrow> getItemByUID w' uid = Some n)
      \<and> ((newItem = None \<or> newItem = Some item) \<and> isRemoved w2 item
            \<longrightarrow> getItemByUID w' uid = None)
      \<and> ((newItem = None \<or> newItem = Some item) \<and> \<not> isRemoved w2 item
            \<longrightarrow> getItemByUID w' uid = Some item)
      \<and> (\<forall>h. h \<noteq> uid \<longrightarrow> getItemByUID w' h = getItemByUID w2 h)
      \<and> ((\<forall>h r. getItemByUID w2 h = Some r \<and> r \<noteq> item \<longrightarrow> \<not> isRemoved w2 r)
           \<and> (\<forall>n. newItem = Some n \<longrightarrow> \<not> isRemoved w2 n)
          \<longrightarrow> noDanglingHandle w'))"

text \<open>
  A sample game for the closed instances: transforming to the same type with count zero
  removes the item, with another count updates it in place, and transforming to another
  type removes the item and puts a new one in its place.
\<close>

definition sampleGame :: Game where
  "sampleGame =
     \<lparr>transformItem =
        (\<lambda>item newId newCount w.
           case items w item of
             None \<Rightarrow> (None, w)
           | Some it \<Rightarrow>
               (if newId = getID it then
                  (if newCount = 0
                   then (None, w\<lparr>items := (items w)(item \<mapsto> it\<lparr>removed := True, parent := None\<rparr>)\<rparr>)
                   else (Some item,
                         w\<lparr>items := (items w)(item \<mapsto> it\<lparr>itemCount := word_of_int newCount,
                                                             subType := newCount\<rparr>)\<rparr>))
                else
                  (Some (Suc item),
                   w\<lparr>items := (items w)
                        (item \<mapsto> it\<lparr>removed := True, parent := None\<rparr>,
                         Suc item \<mapsto> it\<lparr>getID := newId\<rparr>)\<rparr>))),
      clone =
        (\<lambda>item w.
           case items w item of
             None \<Rightarrow> (None, w)
           | Some it \<Rightarrow>
               (Some (item + 2), w\<lparr>items := (items w)(item + 2 \<mapsto> it\<lparr>parent := None\<rparr>)\<rparr>))\<rparr>"

definition handleWorld :: World where
  "handleWorld = sampleWorld\<lparr>localMap := [1 \<mapsto> 7], lastUID := 1\<rparr>"

text \<open>
  A world with one monster behind userdata block 0, and a script interface whose two
  environment slots are both taken, with the callback of a monster.
\<close>

definition sampleMonster :: Monster where
  "sampleMonster =
     \<lparr>monsterName = ''Darklight Matter'', hazard = False, hazardCrit = False,
      hazardDodge = False, hazardDamageBoost = False, hazardDefenseBoost = False,
      forgeStack = 0, icons = Map.empty\<rparr>"

definition monsterWorld :: World where
  "monsterWorld =
     \<lparr>items = Map.empty, monsters = [3 \<mapsto> sampleMonster], vocations = Map.empty,
      userdata = [0 \<mapsto> Some 3],
      userdataTop = 1, localMap = Map.empty, lastUID = 0, tempItems = [], calls = []\<rparr>"

definition sampleInterface :: ScriptInterface where
  "sampleInterface =
     \<lparr>scriptEnv = [\<lparr>scriptId = 11\<rparr>, \<lparr>scriptId = 10\<rparr>], maxDepth = 2,
      pushedFunctions = [10, 11], logged = []\<rparr>"

definition sampleCallback :: CreatureCallback where
  "sampleCallback =
     \<lparr>m_targetCreature = Some \<lparr>kind = IsMonster, creatureName = ''Darklight Matter''\<rparr>,
      params = 0\<rparr>"

text \<open>A callback whose target creature is gone: the weak pointer gives no creature.\<close>

definition expiredCallback :: CreatureCallback where
  "expiredCallback = \<lparr>m_targetCreature = None, params = 0\<rparr>"

section \<open>What each binding does when its handle does not resolve\<close>

text \<open>
  Every binding of the item, monster and vocation files is embedded here or above with its
  test of the handle and the branch it takes when the handle does not resolve. The branch
  taken on a live handle calls methods of Item, Monster, Vocation and Game that are not
  among the sources: where it is not embedded, it is a parameter \<open>onLive\<close> of the
  binding, given the object the handle resolved to, the stack and the world. A value a
  binding reads from the stack before it tests the handle is read in the same place.
\<close>

type_synonym live_branch = "ref \<Rightarrow> lua_State \<Rightarrow> World \<Rightarrow> lua_value list \<times> World"

subsection \<open>Bindings embedded in full\<close>

definition luaItemIsItem :: "lua_State \<Rightarrow> World \<Rightarrow> lua_value list \<times> World" where
  "luaItemIsItem L w =
     (lua_return L [LBoolean (getUserdataShared_Item w (arg L 1) \<noteq> None)] 1, w)"

definition luaMonsterIsMonster :: "lua_State \<Rightarrow> World \<Rightarrow> lua_value list \<times> World" where
  "luaMonsterIsMonster L w =
     (lua_return L [LBoolean (getUserdataShared_Monster w (arg L 1) \<noteq> None)] 1, w)"

definition luaVocationGetId :: "lua_State \<Rightarrow> World \<Rightarrow> lua_value list \<times> World" where
  "luaVocationGetId L w =
     (case getUserdataShared_Vocation w (arg L 1) of
        Some vocation \<Rightarrow>
          (case vocations w vocation of
             Some v \<Rightarrow> (lua_return L [LNumber (of_nat (unat (vocationId v)))] 1, w)
           | None \<Rightarrow> (lua_return L [LNil] 1, w))
      | None \<Rightarrow> (lua_return L [LNil] 1, w))"

definition luaItemHasOwner :: "lua_State \<Rightarrow> World \<Rightarrow> lua_value list \<times> World" where
  "luaItemHasOwner L w =
     (case getUserdataShared_Item w (arg L 1) of
        None \<Rightarrow> (lua_return L [] 1, reportErrorFunc (ErrorDesc LUA_ERROR_ITEM_NOT_FOUND) w)
      | Some item \<Rightarrow>
          (case items w item of
             Some it \<Rightarrow> (lua_return L [LBoolean (ownerId it \<noteq> 0)] 1, w)
           | None \<Rightarrow> (lua_return L [LBoolean False] 1, w)))"

definition luaItemGetOwnerId :: "lua_State \<Rightarrow> World \<Rightarrow> lua_value list \<times> World" where
  "luaItemGetOwnerId L w =
     (case getUserdataShared_Item w (arg L 1) of
        None \<Rightarrow> (lua_return L [] 0, reportErrorFunc (ErrorDesc LUA_ERROR_ITEM_NOT_FOUND) w)
      | Some item \<Rightarrow>
          (case items w item of
             Some it \<Rightarrow>
               (if ownerId it \<noteq> 0 then (lua_return L [LNumber (of_nat (ownerId it))] 1, w)
                else (lua_return L [LNil] 1, w))
           | None \<Rightarrow> (lua_return L [LNil] 1, w)))"

definition luaItemSetActionId :: "Loader \<Rightarrow> lua_State \<Rightarrow> World \<Rightarrow> lua_value list \<times> World" where
  "luaItemSetActionId ld L w =
     (let actionId = getNumber_u16 ld (arg L 2) in
      case getUserdataShared_Item w (arg L 1) of
        Some item \<Rightarrow>
          (lua_return L [LBoolean True] 1, setAttribute item ACTIONID (IntValue (ucast actionId)) w)
      | None \<Rightarrow> (lua_return L [LNil] 1, w))"

subsection \<open>Bindings with a test of their own\<close>

text \<open>
  moveTo works on the userdata block, like split and transform, and moveToSlot on the
  pointer; both also return nil for an item that is removed. The three constructors take
  the handle as second argument: Item(uid) is above, Monster takes the id of a monster or a
  userdata, Vocation an id or a name. Game::getMonsterByID and the vocation table are not
  among the sources and are parameters. A userdata block carries no class tag in this
  model: its class is that of the object it holds, so the test of the userdata type and
  the typed read of the pointer fail together.
\<close>

definition luaItemMoveTo :: "live_branch \<Rightarrow> lua_State \<Rightarrow> World \<Rightarrow> lua_value list \<times> World" where
  "luaItemMoveTo onLive L w =
     (case getRawUserData w (arg L 1) of
        None \<Rightarrow> (lua_return L [LNil] 1, w)
      | Some itemPtr \<Rightarrow>
          (case derefItem w itemPtr of
             None \<Rightarrow> (lua_return L [LNil] 1, w)
           | Some (item, it) \<Rightarrow>
               (if removed it then (lua_return L [LNil] 1, w) else onLive item L w)))"

definition luaItemMoveToSlot :: "live_branch \<Rightarrow> lua_State \<Rightarrow> World \<Rightarrow> lua_value list \<times> World" where
  "luaItemMoveToSlot onLive L w =
     (case getUserdataShared_Item w (arg L 1) of
        None \<Rightarrow> (lua_return L [LNil] 1, w)
      | Some item \<Rightarrow>
          (if isRemoved w item then (lua_return L [LNil] 1, w) else onLive item L w))"

definition isUserdata :: "lua_value \<Rightarrow> bool" where
  "isUserdata v = (case v of LUserdata _ \<Rightarrow> True | _ \<Rightarrow> False)"

definition monsterArgument ::
  "(World \<Rightarrow> nat \<Rightarrow> ref option) \<Rightarrow> Loader \<Rightarrow> lua_State \<Rightarrow> World \<Rightarrow> ref option" where
  "monsterArgument byId ld L w =
     (if isNumber (arg L 2) then byId w (getNumber_u32 ld (arg L 2))
      else if isUserdata (arg L 2) then getUserdataShared_Monster w (arg L 2)
      else None)"

definition luaMonsterCreate ::
  "(World \<Rightarrow> nat \<Rightarrow> ref option) \<Rightarrow> Loader \<Rightarrow> lua_State \<Rightarrow> World \<Rightarrow> lua_value list \<times> World" where
  "luaMonsterCreate byId ld L w =
     (if \<not> isNumber (arg L 2) \<and> isUserdata (arg L 2)
         \<and> getUserdataShared_Monster w (arg L 2) = None
      then (lua_return L [LNil] 1, w)
      else
        (case monsterArgument byId ld L w of
           Some monster \<Rightarrow> (let (v, w') = pushUserdata monster w in (lua_return L [v] 1, w'))
         | None \<Rightarrow> (lua_return L [LNil] 1, w)))"

definition vocationArgument ::
  "(string \<Rightarrow> 16 word) \<Rightarrow> (World \<Rightarrow> 16 word \<Rightarrow> ref option) \<Rightarrow> Loader \<Rightarrow> lua_State \<Rightarrow> World
     \<Rightarrow> ref option" where
  "vocationArgument idOf byId ld L w =
     (let vocationId' = (if isNumber (arg L 2) then getNumber_u16 ld (arg L 2)
                         else idOf (getString ld (arg L 2)))
      in byId w vocationId')"

definition luaVocationCreate ::
  "(string \<Rightarrow> 16 word) \<Rightarrow> (World \<Rightarrow> 16 word \<Rightarrow> ref option) \<Rightarrow> Loader \<Rightarrow> lua_State \<Rightarrow> World
     \<Rightarrow> lua_value list \<times> World" where
  "luaVocationCreate idOf byId ld L w =
     (case vocationArgument idOf byId ld L w of
        Some vocation \<Rightarrow> (let (v, w') = pushUserdata vocation w in (lua_return L [v] 1, w'))
      | None \<Rightarrow> (lua_return L [LNil] 1, w))"

definition luaMonsterSetType ::
  "(bool \<Rightarrow> live_branch) \<Rightarrow> lua_State \<Rightarrow> World \<Rightarrow> lua_value list \<times> World" where
  "luaMonsterSetType onLive L w =
     (let restoreHealth = getBoolean L 3 False in
      case getUserdataShared_Monster w (arg L 1) of
        Some monster \<Rightarrow> onLive restoreHealth monster L w
      | None \<Rightarrow> (lua_return L [LNil] 1, w))"

definition luaMonsterSetTimeToChangeFiendish ::
  "Loader \<Rightarrow> (nat \<Rightarrow> live_branch) \<Rightarrow> lua_State \<Rightarrow> World \<Rightarrow> lua_value list \<times> World" where
  "luaMonsterSetTimeToChangeFiendish ld onLive L w =
     (let endTime = getNumberOr (getNumber_u32 ld) L 2 1 in
      case getUserdataShared_Monster w (arg L 1) of
        None \<Rightarrow>
          (lua_return L [LBoolean False] 0,
           reportErrorFunc (ErrorDesc LUA_ERROR_MONSTER_NOT_FOUND) w)
      | Some monster \<Rightarrow> onLive endTime monster L w)"

definition luaMonsterSetMonsterForgeClassification ::
  "(lua_value \<Rightarrow> nat) \<Rightarrow> (nat \<Rightarrow> live_branch) \<Rightarrow> lua_State \<Rightarrow> World \<Rightarrow> lua_value list \<times> World" where
  "luaMonsterSetMonsterForgeClassification rd onLive L w =
     (let classification = rd (arg L 2) in
      case getUserdataShared_Monster w (arg L 1) of
        None \<Rightarrow>
          (lua_return L [LBoolean False] 0,
           reportErrorFunc (ErrorDesc LUA_ERROR_MONSTER_NOT_FOUND) w)
      | Some monster \<Rightarrow> onLive classification monster L w)"

subsection \<open>Item bindings with the live branch as parameter\<close>

definition luaItemGetContainer :: "live_branch \<Rightarrow> lua_State \<Rightarrow> World \<Rightarrow> lua_value list \<times> World" where
  "luaItemGetContainer onLive L w =
     (case getUserdataShared_Item w (arg L 1) of
        None \<Rightarrow> (lua_return L [LNil] 1, w)
      | Some item \<Rightarrow> onLive item L w)"

definition luaItemGetParent :: "live_branch \<Rightarrow> lua_State \<Rightarrow> World \<Rightarrow> lua_value list \<times> World" where
  "luaItemGetParent onLive L w =
     (case getUserdataShared_Item w (arg L 1) of
        None \<Rightarrow> (lua_return L [LNil] 1, w)
      | Some item \<Rightarrow> onLive item L w)"

definition luaItemGetTopParent :: "live_branch \<Rightarrow> lua_State \<Rightarrow> World \<Rightarrow> lua_value list \<times> World" where
  "luaItemGetTopParent onLive L w =
     (case getUserdataShared_Item w (arg L 1) of
        None \<Rightarrow> (lua_return L [LNil] 1, w)
      | Some item \<Rightarrow> onLive item L w)"

definition luaItemGetId :: "live_branch \<Rightarrow> lua_State \<Rightarrow> World \<Rightarrow> lua_value list \<times> World" where
  "luaItemGetId onLive L w =
     (case getUserdataShared_Item w (arg L 1) of
        Some item \<Rightarrow> onLive item L w
      | None \<Rightarrow> (lua_return L [LNil] 1, w))"

definition luaItemClone :: "live_branch \<Rightarrow> lua_State \<Rightarrow> World \<Rightarrow> lua_value list \<times> World" where
  "luaItemClone onLive L w =
     (case getUserdataShared_Item w (arg L 1) of
        None \<Rightarrow> (lua_return L [LNil] 1, w)
      | Some item \<Rightarrow> onLive item L w)"

definition luaItemRemove :: "live_branch \<Rightarrow> lua_State \<Rightarrow> World \<Rightarrow> lua_value list \<times> World" where
  "luaItemRemove onLive L w =
     (case getUserdataShared_Item w (arg L 1) of
        Some item \<Rightarrow> onLive item L w
      | None \<Rightarrow> (lua_return L [LNil] 1, w))"

definition luaItemGetUniqueId :: "live_branch \<Rightarrow> lua_State \<Rightarrow> World \<Rightarrow> lua_value list \<times> World" where
  "luaItemGetUniqueId onLive L w =
     (case getUserdataShared_Item w (arg L 1) of
        Some item \<Rightarrow> onLive item L w
      | None \<Rightarrow> (lua_return L [LNil] 1, w))"

definition luaItemGetActionId :: "live_branch \<Rightarrow> lua_State \<Rightarrow> World \<Rightarrow> lua_value list \<times> World" where
  "luaItemGetActionId onLive L w =
     (case getUserdataShared_Item w (arg L 1) of
        Some item \<Rightarrow> onLive item L w
      | None \<Rightarrow> (lua_return L [LNil] 1, w))"

definition luaItemGetCount :: "live_branch \<Rightarrow> lua_State \<Rightarrow> World \<Rightarrow> lua_value list \<times> World" where
  "luaItemGetCount onLive L w =
     (case getUserdataShared_Item w (arg L 1) of
        Some item \<Rightarrow> onLive item L w
      | None \<Rightarrow> (lua_return L [LNil] 1, w))"

definition luaItemGetCharges :: "live_branch \<Rightarrow> lua_State \<Rightarrow> World \<Rightarrow> lua_value list \<times> World" where
  "luaItemGetCharges onLive L w =
     (case getUserdataShared_Item w (arg L 1) of
        Some item \<Rightarrow> onLive item L w
      | None \<Rightarrow> (lua_return L [LNil] 1, w))"

definition luaItemGetFluidType :: "live_branch \<Rightarrow> lua_State \<Rightarrow> World \<Rightarrow> lua_value list \<times> World" where
  "luaItemGetFluidType onLive L w =
     (case getUserdataShared_Item w (arg L 1) of
        Some item \<Rightarrow> onLive item L w
      | None \<Rightarrow> (lua_return L [LNil] 1, w))"

definition luaItemGetWeight :: "live_branch \<Rightarrow> lua_State \<Rightarrow> World \<Rightarrow> lua_value list \<times> World" where
  "luaItemGetWeight onLive L w =
     (case getUserdataShared_Item w (arg L 1) of
        Some item \<Rightarrow> onLive item L w
      | None \<Rightarrow> (lua_return L [LNil] 1, w))"

definition luaItemGetSubType :: "live_branch \<Rightarrow> lua_State \<Rightarrow> World \<Rightarrow> lua_value list \<times> World" where
  "luaItemGetSubType onLive L w =
     (case getUserdataShared_Item w (arg L 1) of
        Some item \<Rightarrow> onLive item L w
      | None \<Rightarrow> (lua_return L [LNil] 1, w))"

definition luaItemGetName :: "live_branch \<Rightarrow> lua_State \<Rightarrow> World \<Rightarrow> lua_value list \<times> World" where
  "luaItemGetName onLive L w =
     (case getUserdataShared_Item w (arg L 1) of
        Some item \<Rightarrow> onLive item L w
      | None \<Rightarrow> (lua_return L [LNil] 1, w))"

definition luaItemGetPluralName :: "live_branch \<Rightarrow> lua_State \<Rightarrow> World \<Rightarrow> lua_value list \<times> World" where
  "luaItemGetPluralName onLive L w =
     (case getUserdataShared_Item w (arg L 1) of
        Some item \<Rightarrow> onLive item L w
      | None \<Rightarrow> (lua_return L [LNil] 1, w))"

definition luaItemGetArticle :: "live_branch \<Rightarrow> lua_State \<Rightarrow> World \<Rightarrow> lua_value list \<times> World" where
  "luaItemGetArticle onLive L w =
     (case getUserdataShared_Item w (arg L 1) of
        Some item \<Rightarrow> onLive item L w
      | None \<Rightarrow> (lua_return L [LNil] 1, w))"

definition luaItemGetPosition :: "live_branch \<Rightarrow> lua_State \<Rightarrow> World \<Rightarrow> lua_value list \<times> World" where
  "luaItemGetPosition onLive L w =
     (case getUserdataShared_Item w (arg L 1) of
        Some item \<Rightarrow> onLive item L w
      | None \<Rightarrow> (lua_return L [LNil] 1, w))"

definition luaItemGetTile :: "live_branch \<Rightarrow> lua_State \<Rightarrow> World \<Rightarrow> lua_value list \<times> World" where
  "luaItemGetTile onLive L w =
     (case getUserdataShared_Item w (arg L 1) of
        None \<Rightarrow> (lua_return L [LNil] 1, w)
      | Some item \<Rightarrow> onLive item L w)"

definition luaItemHasAttribute :: "live_branch \<Rightarrow> lua_State \<Rightarrow> World \<Rightarrow> lua_value list \<times> World" where
  "luaItemHasAttribute onLive L w =
     (case getUserdataShared_Item w (arg L 1) of
        None \<Rightarrow> (lua_return L [LNil] 1, w)
      | Some item \<Rightarrow> onLive item L w)"

definition luaItemGetAttribute :: "live_branch \<Rightarrow> lua_State \<Rightarrow> World \<Rightarrow> lua_value list \<times> World" where
  "luaItemGetAttribute onLive L w =
     (case getUserdataShared_Item w (arg L 1) of
        None \<Rightarrow> (lua_return L [LNil] 1, w)
      | Some item \<Rightarrow> onLive item L w)"

definition luaItemRemoveCustomAttribute :: "live_branch \<Rightarrow> lua_State \<Rightarrow> World \<Rightarrow> lua_value list \<times> World" where
  "luaItemRemoveCustomAttribute onLive L w =
     (case getUserdataShared_Item w (arg L 1) of
        None \<Rightarrow> (lua_return L [LNil] 1, w)
      | Some item \<Rightarrow> onLive item L w)"

definition luaItemCanBeMoved :: "live_branch \<Rightarrow> lua_State \<Rightarrow> World \<Rightarrow> lua_value list \<times> World" where
  "luaItemCanBeMoved onLive L w =
     (case getUserdataShared_Item w (arg L 1) of
        Some item \<Rightarrow> onLive item L w
      | None \<Rightarrow> (lua_return L [LNil] 1, w))"

definition luaItemSerializeAttributes :: "live_branch \<Rightarrow> lua_State \<Rightarrow> World \<Rightarrow> lua_value list \<times> World" where
  "luaItemSerializeAttributes onLive L w =
     (case getUserdataShared_Item w (arg L 1) of
        None \<Rightarrow> (lua_return L [LNil] 1, w)
      | Some item \<Rightarrow> onLive item L w)"

definition luaItemDecay :: "live_branch \<Rightarrow> lua_State \<Rightarrow> World \<Rightarrow> lua_value list \<times> World" where
  "luaItemDecay onLive L w =
     (case getUserdataShared_Item w (arg L 1) of
        Some item \<Rightarrow> onLive item L w
      | None \<Rightarrow> (lua_return L [LNil] 1, w))"

definition luaItemGetDescription :: "live_branch \<Rightarrow> lua_State \<Rightarrow> World \<Rightarrow> lua_value list \<times> World" where
  "luaItemGetDescription onLive L w =
     (case getUserdataShared_Item w (arg L 1) of
        Some item \<Rightarrow> onLive item L w
      | None \<Rightarrow> (lua_return L [LNil] 1, w))"

definition luaItemHasProperty :: "live_branch \<Rightarrow> lua_State \<Rightarrow> World \<Rightarrow> lua_value list \<times> World" where
  "luaItemHasProperty onLive L w =
     (case getUserdataShared_Item w (arg L 1) of
        Some item \<Rightarrow> onLive item L w
      | None \<Rightarrow> (lua_return L [LNil] 1, w))"

definition luaItemGetImbuement :: "live_branch \<Rightarrow> lua_State \<Rightarrow> World \<Rightarrow> lua_value list \<times> World" where
  "luaItemGetImbuement onLive L w =
     (case getUserdataShared_Item w (arg L 1) of
        None \<Rightarrow> (lua_return L [LBoolean False] 1,
           reportErrorFunc (ErrorDesc LUA_ERROR_ITEM_NOT_FOUND) w)
      | Some item \<Rightarrow> onLive item L w)"

definition luaItemGetImbuementSlot :: "live_branch \<Rightarrow> lua_State \<Rightarrow> World \<Rightarrow> lua_value list \<times> World" where
  "luaItemGetImbuementSlot onLive L w =
     (case getUserdataShared_Item w (arg L 1) of
        None \<Rightarrow> (lua_return L [LBoolean False] 1,
           reportErrorFunc (ErrorDesc LUA_ERROR_ITEM_NOT_FOUND) w)
      | Some item \<Rightarrow> onLive item L w)"

definition luaItemSetDuration :: "live_branch \<Rightarrow> lua_State \<Rightarrow> World \<Rightarrow> lua_value list \<times> World" where
  "luaItemSetDuration onLive L w =
     (case getUserdataShared_Item w (arg L 1) of
        None \<Rightarrow> (lua_return L [LBoolean False] 1,
           reportErrorFunc (ErrorDesc LUA_ERROR_ITEM_NOT_FOUND) w)
      | Some item \<Rightarrow> onLive item L w)"

definition luaItemIsInsideDepot :: "live_branch \<Rightarrow> lua_State \<Rightarrow> World \<Rightarrow> lua_value list \<times> World" where
  "luaItemIsInsideDepot onLive L w =
     (case getUserdataShared_Item w (arg L 1) of
        None \<Rightarrow> (lua_return L [LBoolean False] 1,
           reportErrorFunc (ErrorDesc LUA_ERROR_ITEM_NOT_FOUND) w)
      | Some item \<Rightarrow> onLive item L w)"

definition luaItemIsContainer :: "live_branch \<Rightarrow> lua_State \<Rightarrow> World \<Rightarrow> lua_value list \<times> World" where
  "luaItemIsContainer onLive L w =
     (case getUserdataShared_Item w (arg L 1) of
        None \<Rightarrow> (lua_return L [LBoolean False] 1,
           reportErrorFunc (ErrorDesc LUA_ERROR_ITEM_NOT_FOUND) w)
      | Some item \<Rightarrow> onLive item L w)"

definition luaItemGetTier :: "live_branch \<Rightarrow> lua_State \<Rightarrow> World \<Rightarrow> lua_value list \<times> World" where
  "luaItemGetTier onLive L w =
     (case getUserdataShared_Item w (arg L 1) of
        None \<Rightarrow> (lua_return L [LBoolean False] 1,
           reportErrorFunc (ErrorDesc LUA_ERROR_ITEM_NOT_FOUND) w)
      | Some item \<Rightarrow> onLive item L w)"

definition luaItemSetTier :: "live_branch \<Rightarrow> lua_State \<Rightarrow> World \<Rightarrow> lua_value list \<times> World" where
  "luaItemSetTier onLive L w =
     (case getUserdataShared_Item w (arg L 1) of
        None \<Rightarrow> (lua_return L [LBoolean False] 1,
           reportErrorFunc (ErrorDesc LUA_ERROR_ITEM_NOT_FOUND) w)
      | Some item \<Rightarrow> onLive item L w)"

definition luaItemGetClassification :: "live_branch \<Rightarrow> lua_State \<Rightarrow> World \<Rightarrow> lua_value list \<times> World" where
  "luaItemGetClassification onLive L w =
     (case getUserdataShared_Item w (arg L 1) of
        None \<Rightarrow> (lua_return L [LBoolean False] 1,
           reportErrorFunc (ErrorDesc LUA_ERROR_ITEM_NOT_FOUND) w)
      | Some item \<Rightarrow> onLive item L w)"

definition luaItemCanReceiveAutoCarpet :: "live_branch \<Rightarrow> lua_State \<Rightarrow> World \<Rightarrow> lua_value list \<times> World" where
  "luaItemCanReceiveAutoCarpet onLive L w =
     (case getUserdataShared_Item w (arg L 1) of
        None \<Rightarrow> (lua_return L [LBoolean False] 1,
           reportErrorFunc (ErrorDesc LUA_ERROR_ITEM_NOT_FOUND) w)
      | Some item \<Rightarrow> onLive item L w)"

definition luaItemSetOwner :: "live_branch \<Rightarrow> lua_State \<Rightarrow> World \<Rightarrow> lua_value list \<times> World" where
  "luaItemSetOwner onLive L w =
     (case getUserdataShared_Item w (arg L 1) of
        None \<Rightarrow> (lua_return L [] 0, reportErrorFunc (ErrorDesc LUA_ERROR_ITEM_NOT_FOUND) w)
      | Some item \<Rightarrow> onLive item L w)"

definition luaItemIsOwner :: "live_branch \<Rightarrow> lua_State \<Rightarrow> World \<Rightarrow> lua_value list \<times> World" where
  "luaItemIsOwner onLive L w =
     (case getUserdataShared_Item w (arg L 1) of
        None \<Rightarrow> (lua_return L [] 0, reportErrorFunc (ErrorDesc LUA_ERROR_ITEM_NOT_FOUND) w)
      | Some item \<Rightarrow> onLive item L w)"

definition luaItemGetOwnerName :: "live_branch \<Rightarrow> lua_State \<Rightarrow> World \<Rightarrow> lua_value list \<times> World" where
  "luaItemGetOwnerName onLive L w =
     (case getUserdataShared_Item w (arg L 1) of
        None \<Rightarrow> (lua_return L [] 0, reportErrorFunc (ErrorDesc LUA_ERROR_ITEM_NOT_FOUND) w)
      | Some item \<Rightarrow> onLive item L w)"

subsection \<open>Monster bindings with the live branch as parameter\<close>

definition luaMonsterGetType :: "live_branch \<Rightarrow> lua_State \<Rightarrow> World \<Rightarrow> lua_value list \<times> World" where
  "luaMonsterGetType onLive L w =
     (case getUserdataShared_Monster w (arg L 1) of
        Some monster \<Rightarrow> onLive monster L w
      | None \<Rightarrow> (lua_return L [LNil] 1, w))"

definition luaMonsterGetSpawnPosition :: "live_branch \<Rightarrow> lua_State \<Rightarrow> World \<Rightarrow> lua_value list \<times> World" where
  "luaMonsterGetSpawnPosition onLive L w =
     (case getUserdataShared_Monster w (arg L 1) of
        Some monster \<Rightarrow> onLive monster L w
      | None \<Rightarrow> (lua_return L [LNil] 1, w))"

definition luaMonsterIsInSpawnRange :: "live_branch \<Rightarrow> lua_State \<Rightarrow> World \<Rightarrow> lua_value list \<times> World" where
  "luaMonsterIsInSpawnRange onLive L w =
     (case getUserdataShared_Monster w (arg L 1) of
        Some monster \<Rightarrow> onLive monster L w
      | None \<Rightarrow> (lua_return L [LNil] 1, w))"

definition luaMonsterIsIdle :: "live_branch \<Rightarrow> lua_State \<Rightarrow> World \<Rightarrow> lua_value list \<times> World" where
  "luaMonsterIsIdle onLive L w =
     (case getUserdataShared_Monster w (arg L 1) of
        Some monster \<Rightarrow> onLive monster L w
      | None \<Rightarrow> (lua_return L [LNil] 1, w))"

definition luaMonsterSetIdle :: "live_branch \<Rightarrow> lua_State \<Rightarrow> World \<Rightarrow> lua_value list \<times> World" where
  "luaMonsterSetIdle onLive L w =
     (case getUserdataShared_Monster w (arg L 1) of
        None \<Rightarrow> (lua_return L [LNil] 1, w)
      | Some monster \<Rightarrow> onLive monster L w)"

definition luaMonsterIsTarget :: "live_branch \<Rightarrow> lua_State \<Rightarrow> World \<Rightarrow> lua_value list \<times> World" where
  "luaMonsterIsTarget onLive L w =
     (case getUserdataShared_Monster w (arg L 1) of
        Some monster \<Rightarrow> onLive monster L w
      | None \<Rightarrow> (lua_return L [LNil] 1, w))"

definition luaMonsterIsOpponent :: "live_branch \<Rightarrow> lua_State \<Rightarrow> World \<Rightarrow> lua_value list \<times> World" where
  "luaMonsterIsOpponent onLive L w =
     (case getUserdataShared_Monster w (arg L 1) of
        Some monster \<Rightarrow> onLive monster L w
      | None \<Rightarrow> (lua_return L [LNil] 1, w))"

definition luaMonsterIsFriend :: "live_branch \<Rightarrow> lua_State \<Rightarrow> World \<Rightarrow> lua_value list \<times> World" where
  "luaMonsterIsFriend onLive L w =
     (case getUserdataShared_Monster w (arg L 1) of
        Some monster \<Rightarrow> onLive monster L w
      | None \<Rightarrow> (lua_return L [LNil] 1, w))"

definition luaMonsterAddFriend :: "live_branch \<Rightarrow> lua_State \<Rightarrow> World \<Rightarrow> lua_value list \<times> World" where
  "luaMonsterAddFriend onLive L w =
     (case getUserdataShared_Monster w (arg L 1) of
        Some monster \<Rightarrow> onLive monster L w
      | None \<Rightarrow> (lua_return L [LNil] 1, w))"

definition luaMonsterRemoveFriend :: "live_branch \<Rightarrow> lua_State \<Rightarrow> World \<Rightarrow> lua_value list \<times> World" where
  "luaMonsterRemoveFriend onLive L w =
     (case getUserdataShared_Monster w (arg L 1) of
        Some monster \<Rightarrow> onLive monster L w
      | None \<Rightarrow> (lua_return L [LNil] 1, w))"

definition luaMonsterGetFriendList :: "live_branch \<Rightarrow> lua_State \<Rightarrow> World \<Rightarrow> lua_value list \<times> World" where
  "luaMonsterGetFriendList onLive L w =
     (case getUserdataShared_Monster w (arg L 1) of
        None \<Rightarrow> (lua_return L [LNil] 1, w)
      | Some monster \<Rightarrow> onLive monster L w)"

definition luaMonsterGetFriendCount :: "live_branch \<Rightarrow> lua_State \<Rightarrow> World \<Rightarrow> lua_value list \<times> World" where
  "luaMonsterGetFriendCount onLive L w =
     (case getUserdataShared_Monster w (arg L 1) of
        Some monster \<Rightarrow> onLive monster L w
      | None \<Rightarrow> (lua_return L [LNil] 1, w))"

definition luaMonsterAddTarget :: "live_branch \<Rightarrow> lua_State \<Rightarrow> World \<Rightarrow> lua_value list \<times> World" where
  "luaMonsterAddTarget onLive L w =
     (case getUserdataShared_Monster w (arg L 1) of
        None \<Rightarrow> (lua_return L [LNil] 1, w)
      | Some monster \<Rightarrow> onLive monster L w)"

definition luaMonsterRemoveTarget :: "live_branch \<Rightarrow> lua_State \<Rightarrow> World \<Rightarrow> lua_value list \<times> World" where
  "luaMonsterRemoveTarget onLive L w =
     (case getUserdataShared_Monster w (arg L 1) of
        None \<Rightarrow> (lua_return L [LNil] 1, w)
      | Some monster \<Rightarrow> onLive monster L w)"

definition luaMonsterGetTargetList :: "live_branch \<Rightarrow> lua_State \<Rightarrow> World \<Rightarrow> lua_value list \<times> World" where
  "luaMonsterGetTargetList onLive L w =
     (case getUserdataShared_Monster w (arg L 1) of
        None \<Rightarrow> (lua_return L [LNil] 1, w)
      | Some monster \<Rightarrow> onLive monster L w)"

definition luaMonsterGetTargetCount :: "live_branch \<Rightarrow> lua_State \<Rightarrow> World \<Rightarrow> lua_value list \<times> World" where
  "luaMonsterGetTargetCount onLive L w =
     (case getUserdataShared_Monster w (arg L 1) of
        Some monster \<Rightarrow> onLive monster L w
      | None \<Rightarrow> (lua_return L [LNil] 1, w))"

definition luaMonsterChangeTargetDistance :: "live_branch \<Rightarrow> lua_State \<Rightarrow> World \<Rightarrow> lua_value list \<times> World" where
  "luaMonsterChangeTargetDistance onLive L w =
     (case getUserdataShared_Monster w (arg L 1) of
        Some monster \<Rightarrow> onLive monster L w
      | None \<Rightarrow> (lua_return L [LNil] 1, w))"

definition luaMonsterIsChallenged :: "live_branch \<Rightarrow> lua_State \<Rightarrow> World \<Rightarrow> lua_value list \<times> World" where
  "luaMonsterIsChallenged onLive L w =
     (case getUserdataShared_Monster w (arg L 1) of
        Some monster \<Rightarrow> onLive monster L w
      | None \<Rightarrow> (lua_return L [LNil] 1, w))"

definition luaMonsterSelectTarget :: "live_branch \<Rightarrow> lua_State \<Rightarrow> World \<Rightarrow> lua_value list \<times> World" where
  "luaMonsterSelectTarget onLive L w =
     (case getUserdataShared_Monster w (arg L 1) of
        Some monster \<Rightarrow> onLive monster L w
      | None \<Rightarrow> (lua_return L [LNil] 1, w))"

definition luaMonsterSearchTarget :: "live_branch \<Rightarrow> lua_State \<Rightarrow> World \<Rightarrow> lua_value list \<times> World" where
  "luaMonsterSearchTarget onLive L w =
     (case getUserdataShared_Monster w (arg L 1) of
        Some monster \<Rightarrow> onLive monster L w
      | None \<Rightarrow> (lua_return L [LNil] 1, w))"

definition luaMonsterSetSpawnPosition :: "live_branch \<Rightarrow> lua_State \<Rightarrow> World \<Rightarrow> lua_value list \<times> World" where
  "luaMonsterSetSpawnPosition onLive L w =
     (case getUserdataShared_Monster w (arg L 1) of
        None \<Rightarrow> (lua_return L [LNil] 1, w)
      | Some monster \<Rightarrow> onLive monster L w)"

definition luaMonsterGetRespawnType :: "live_branch \<Rightarrow> lua_State \<Rightarrow> World \<Rightarrow> lua_value list \<times> World" where
  "luaMonsterGetRespawnType onLive L w =
     (case getUserdataShared_Monster w (arg L 1) of
        None \<Rightarrow> (lua_return L [LNil] 1, w)
      | Some monster \<Rightarrow> onLive monster L w)"

definition luaMonsterGetTimeToChangeFiendish :: "live_branch \<Rightarrow> lua_State \<Rightarrow> World \<Rightarrow> lua_value list \<times> World" where
  "luaMonsterGetTimeToChangeFiendish onLive L w =
     (case getUserdataShared_Monster w (arg L 1) of
        None \<Rightarrow> (lua_return L [LBoolean False] 0,
           reportErrorFunc (ErrorDesc LUA_ERROR_MONSTER_NOT_FOUND) w)
      | Some monster \<Rightarrow> onLive monster L w)"

definition luaMonsterGetMonsterForgeClassification :: "live_branch \<Rightarrow> lua_State \<Rightarrow> World \<Rightarrow> lua_value list \<times> World" where
  "luaMonsterGetMonsterForgeClassification onLive L w =
     (case getUserdataShared_Monster w (arg L 1) of
        None \<Rightarrow> (lua_return L [LBoolean False] 0,
           reportErrorFunc (ErrorDesc LUA_ERROR_MONSTER_NOT_FOUND) w)
      | Some monster \<Rightarrow> onLive monster L w)"

definition luaMonsterGetForgeStack :: "live_branch \<Rightarrow> lua_State \<Rightarrow> World \<Rightarrow> lua_value list \<times> World" where
  "luaMonsterGetForgeStack onLive L w =
     (case getUserdataShared_Monster w (arg L 1) of
        None \<Rightarrow> (lua_return L [LBoolean False] 0,
           reportErrorFunc (ErrorDesc LUA_ERROR_MONSTER_NOT_FOUND) w)
      | Some monster \<Rightarrow> onLive monster L w)"

definition luaMonsterConfigureForgeSystem :: "live_branch \<Rightarrow> lua_State \<Rightarrow> World \<Rightarrow> lua_value list \<times> World" where
  "luaMonsterConfigureForgeSystem onLive L w =
     (case getUserdataShared_Monster w (arg L 1) of
        None \<Rightarrow> (lua_return L [LBoolean False] 0,
           reportErrorFunc (ErrorDesc LUA_ERROR_MONSTER_NOT_FOUND) w)
      | Some monster \<Rightarrow> onLive monster L w)"

definition luaMonsterClearFiendishStatus :: "live_branch \<Rightarrow> lua_State \<Rightarrow> World \<Rightarrow> lua_value list \<times> World" where
  "luaMonsterClearFiendishStatus onLive L w =
     (case getUserdataShared_Monster w (arg L 1) of
        None \<Rightarrow> (lua_return L [LBoolean False] 0,
           reportErrorFunc (ErrorDesc LUA_ERROR_MONSTER_NOT_FOUND) w)
      | Some monster \<Rightarrow> onLive monster L w)"

definition luaMonsterIsForgeable :: "live_branch \<Rightarrow> lua_State \<Rightarrow> World \<Rightarrow> lua_value list \<times> World" where
  "luaMonsterIsForgeable onLive L w =
     (case getUserdataShared_Monster w (arg L 1) of
        None \<Rightarrow> (lua_return L [LBoolean False] 0,
           reportErrorFunc (ErrorDesc LUA_ERROR_MONSTER_NOT_FOUND) w)
      | Some monster \<Rightarrow> onLive monster L w)"

definition luaMonsterSetName :: "live_branch \<Rightarrow> lua_State \<Rightarrow> World \<Rightarrow> lua_value list \<times> World" where
  "luaMonsterSetName onLive L w =
     (case getUserdataShared_Monster w (arg L 1) of
        None \<Rightarrow> (lua_return L [LBoolean False] 0,
           reportErrorFunc (ErrorDesc LUA_ERROR_MONSTER_NOT_FOUND) w)
      | Some monster \<Rightarrow> onLive monster L w)"

definition luaMonsterAddReflectElement :: "live_branch \<Rightarrow> lua_State \<Rightarrow> World \<Rightarrow> lua_value list \<times> World" where
  "luaMonsterAddReflectElement onLive L w =
     (case getUserdataShared_Monster w (arg L 1) of
        None \<Rightarrow> (lua_return L [LBoolean False] 0,
           reportErrorFunc (ErrorDesc LUA_ERROR_MONSTER_NOT_FOUND) w)
      | Some monster \<Rightarrow> onLive monster L w)"

definition luaMonsterAddDefense :: "live_branch \<Rightarrow> lua_State \<Rightarrow> World \<Rightarrow> lua_value list \<times> World" where
  "luaMonsterAddDefense onLive L w =
     (case getUserdataShared_Monster w (arg L 1) of
        None \<Rightarrow> (lua_return L [LBoolean False] 0,
           reportErrorFunc (ErrorDesc LUA_ERROR_MONSTER_NOT_FOUND) w)
      | Some monster \<Rightarrow> onLive monster L w)"

definition luaMonsterGetDefense :: "live_branch \<Rightarrow> lua_State \<Rightarrow> World \<Rightarrow> lua_value list \<times> World" where
  "luaMonsterGetDefense onLive L w =
     (case getUserdataShared_Monster w (arg L 1) of
        None \<Rightarrow> (lua_return L [LBoolean False] 0,
           reportErrorFunc (ErrorDesc LUA_ERROR_MONSTER_NOT_FOUND) w)
      | Some monster \<Rightarrow> onLive monster L w)"

definition luaMonsterIsDead :: "live_branch \<Rightarrow> lua_State \<Rightarrow> World \<Rightarrow> lua_value list \<times> World" where
  "luaMonsterIsDead onLive L w =
     (case getUserdataShared_Monster w (arg L 1) of
        None \<Rightarrow> (lua_return L [LBoolean False] 0,
           reportErrorFunc (ErrorDesc LUA_ERROR_MONSTER_NOT_FOUND) w)
      | Some monster \<Rightarrow> onLive monster L w)"

definition luaMonsterImmune :: "live_branch \<Rightarrow> lua_State \<Rightarrow> World \<Rightarrow> lua_value list \<times> World" where
  "luaMonsterImmune onLive L w =
     (case getUserdataShared_Monster w (arg L 1) of
        None \<Rightarrow> (lua_return L [LBoolean False] 0,
           reportErrorFunc (ErrorDesc LUA_ERROR_MONSTER_NOT_FOUND) w)
      | Some monster \<Rightarrow> onLive monster L w)"

subsection \<open>Vocation bindings with the live branch as parameter\<close>

definition luaVocationGetClientId :: "live_branch \<Rightarrow> lua_State \<Rightarrow> World \<Rightarrow> lua_value list \<times> World" where
  "luaVocationGetClientId onLive L w =
     (case getUserdataShared_Vocation w (arg L 1) of
        Some vocation \<Rightarrow> onLive vocation L w
      | None \<Rightarrow> (lua_return L [LNil] 1, w))"

definition luaVocationGetBaseId :: "live_branch \<Rightarrow> lua_State \<Rightarrow> World \<Rightarrow> lua_value list \<times> World" where
  "luaVocationGetBaseId onLive L w =
     (case getUserdataShared_Vocation w (arg L 1) of
        Some vocation \<Rightarrow> onLive vocation L w
      | None \<Rightarrow> (lua_return L [LNil] 1, w))"

definition luaVocationGetName :: "live_branch \<Rightarrow> lua_State \<Rightarrow> World \<Rightarrow> lua_value list \<times> World" where
  "luaVocationGetName onLive L w =
     (case getUserdataShared_Vocation w (arg L 1) of
        Some vocation \<Rightarrow> onLive vocation L w
      | None \<Rightarrow> (lua_return L [LNil] 1, w))"

definition luaVocationGetDescription :: "live_branch \<Rightarrow> lua_State \<Rightarrow> World \<Rightarrow> lua_value list \<times> World" where
  "luaVocationGetDescription onLive L w =
     (case getUserdataShared_Vocation w (arg L 1) of
        Some vocation \<Rightarrow> onLive vocation L w
      | None \<Rightarrow> (lua_return L [LNil] 1, w))"

definition luaVocationGetRequiredSkillTries :: "live_branch \<Rightarrow> lua_State \<Rightarrow> World \<Rightarrow> lua_value list \<times> World" where
  "luaVocationGetRequiredSkillTries onLive L w =
     (case getUserdataShared_Vocation w (arg L 1) of
        Some vocation \<Rightarrow> onLive vocation L w
      | None \<Rightarrow> (lua_return L [LNil] 1, w))"

definition luaVocationGetRequiredManaSpent :: "live_branch \<Rightarrow> lua_State \<Rightarrow> World \<Rightarrow> lua_value list \<times> World" where
  "luaVocationGetRequiredManaSpent onLive L w =
     (case getUserdataShared_Vocation w (arg L 1) of
        Some vocation \<Rightarrow> onLive vocation L w
      | None \<Rightarrow> (lua_return L [LNil] 1, w))"

definition luaVocationGetCapacityGain :: "live_branch \<Rightarrow> lua_State \<Rightarrow> World \<Rightarrow> lua_value list \<times> World" where
  "luaVocationGetCapacityGain onLive L w =
     (case getUserdataShared_Vocation w (arg L 1) of
        Some vocation \<Rightarrow> onLive vocation L w
      | None \<Rightarrow> (lua_return L [LNil] 1, w))"

definition luaVocationGetHealthGain :: "live_branch \<Rightarrow> lua_State \<Rightarrow> World \<Rightarrow> lua_value list \<times> World" where
  "luaVocationGetHealthGain onLive L w =
     (case getUserdataShared_Vocation w (arg L 1) of
        Some vocation \<Rightarrow> onLive vocation L w
      | None \<Rightarrow> (lua_return L [LNil] 1, w))"

definition luaVocationGetHealthGainTicks :: "live_branch \<Rightarrow> lua_State \<Rightarrow> World \<Rightarrow> lua_value list \<times> World" where
  "luaVocationGetHealthGainTicks onLive L w =
     (case getUserdataShared_Vocation w (arg L 1) of
        Some vocation \<Rightarrow> onLive vocation L w
      | None \<Rightarrow> (lua_return L [LNil] 1, w))"

definition luaVocationGetHealthGainAmount :: "live_branch \<Rightarrow> lua_State \<Rightarrow> World \<Rightarrow> lua_value list \<times> World" where
  "luaVocationGetHealthGainAmount onLive L w =
     (case getUserdataShared_Vocation w (arg L 1) of
        Some vocation \<Rightarrow> onLive vocation L w
      | None \<Rightarrow> (lua_return L [LNil] 1, w))"

definition luaVocationGetManaGain :: "live_branch \<Rightarrow> lua_State \<Rightarrow> World \<Rightarrow> lua_value list \<times> World" where
  "luaVocationGetManaGain onLive L w =
     (case getUserdataShared_Vocation w (arg L 1) of
        Some vocation \<Rightarrow> onLive vocation L w
      | None \<Rightarrow> (lua_return L [LNil] 1, w))"

definition luaVocationGetManaGainTicks :: "live_branch \<Rightarrow> lua_State \<Rightarrow> World \<Rightarrow> lua_value list \<times> World" where
  "luaVocationGetManaGainTicks onLive L w =
     (case getUserdataShared_Vocation w (arg L 1) of
        Some vocation \<Rightarrow> onLive vocation L w
      | None \<Rightarrow> (lua_return L [LNil] 1, w))"

definition luaVocationGetManaGainAmount :: "live_branch \<Rightarrow> lua_State \<Rightarrow> World \<Rightarrow> lua_value list \<times> World" where
  "luaVocationGetManaGainAmount onLive L w =
     (case getUserdataShared_Vocation w (arg L 1) of
        Some vocation \<Rightarrow> onLive vocation L w
      | None \<Rightarrow> (lua_return L [LNil] 1, w))"

definition luaVocationGetMaxSoul :: "live_branch \<Rightarrow> lua_State \<Rightarrow> World \<Rightarrow> lua_value list \<times> World" where
  "luaVocationGetMaxSoul onLive L w =
     (case getUserdataShared_Vocation w (arg L 1) of
        Some vocation \<Rightarrow> onLive vocation L w
      | None \<Rightarrow> (lua_return L [LNil] 1, w))"

definition luaVocationGetSoulGainTicks :: "live_branch \<Rightarrow> lua_State \<Rightarrow> World \<Rightarrow> lua_value list \<times> World" where
  "luaVocationGetSoulGainTicks onLive L w =
     (case getUserdataShared_Vocation w (arg L 1) of
        Some vocation \<Rightarrow> onLive vocation L w
      | None \<Rightarrow> (lua_return L [LNil] 1, w))"

definition luaVocationGetBaseAttackSpeed :: "live_branch \<Rightarrow> lua_State \<Rightarrow> World \<Rightarrow> lua_value list \<times> World" where
  "luaVocationGetBaseAttackSpeed onLive L w =
     (case getUserdataShared_Vocation w (arg L 1) of
        Some vocation \<Rightarrow> onLive vocation L w
      | None \<Rightarrow> (lua_return L [LNil] 1, w))"

definition luaVocationGetAttackSpeed :: "live_branch \<Rightarrow> lua_State \<Rightarrow> World \<Rightarrow> lua_value list \<times> World" where
  "luaVocationGetAttackSpeed onLive L w =
     (case getUserdataShared_Vocation w (arg L 1) of
        Some vocation \<Rightarrow> onLive vocation L w
      | None \<Rightarrow> (lua_return L [LNil] 1, w))"

definition luaVocationGetBaseSpeed :: "live_branch \<Rightarrow> lua_State \<Rightarrow> World \<Rightarrow> lua_value list \<times> World" where
  "luaVocationGetBaseSpeed onLive L w =
     (case getUserdataShared_Vocation w (arg L 1) of
        Some vocation \<Rightarrow> onLive vocation L w
      | None \<Rightarrow> (lua_return L [LNil] 1, w))"

definition luaVocationGetDemotion :: "live_branch \<Rightarrow> lua_State \<Rightarrow> World \<Rightarrow> lua_value list \<times> World" where
  "luaVocationGetDemotion onLive L w =
     (case getUserdataShared_Vocation w (arg L 1) of
        None \<Rightarrow> (lua_return L [LNil] 1, w)
      | Some vocation \<Rightarrow> onLive vocation L w)"

definition luaVocationGetPromotion :: "live_branch \<Rightarrow> lua_State \<Rightarrow> World \<Rightarrow> lua_value list \<times> World" where
  "luaVocationGetPromotion onLive L w =
     (case getUserdataShared_Vocation w (arg L 1) of
        None \<Rightarrow> (lua_return L [LNil] 1, w)
      | Some vocation \<Rightarrow> onLive vocation L w)"

subsection \<open>All bindings, each with the test that its handle does not resolve\<close>

text \<open>
  The collaborators a binding may need, gathered so that all bindings have one type, and
  the ways a handle fails to resolve: the first argument holds no item, no monster or no
  vocation, or, for the constructors, the second argument names none.
\<close>

record Collaborators =
  loader :: Loader
  game :: Game
  live :: "string \<Rightarrow> live_branch"
  getMonsterByID :: "World \<Rightarrow> nat \<Rightarrow> ref option"
  getVocationId :: "string \<Rightarrow> 16 word"
  getVocation :: "World \<Rightarrow> 16 word \<Rightarrow> ref option"
  getForgeClassification :: "lua_value \<Rightarrow> nat"

type_synonym binding = "Collaborators \<Rightarrow> lua_State \<Rightarrow> World \<Rightarrow> lua_value list \<times> World"

type_synonym unresolved = "Collaborators \<Rightarrow> lua_State \<Rightarrow> World \<Rightarrow> bool"

definition noItem :: unresolved where
  "noItem c L w = (getUserdataShared_Item w (arg L 1) = None)"

definition noRawItem :: unresolved where
  "noRawItem c L w =
     (case getRawUserData w (arg L 1) of
        None \<Rightarrow> True
      | Some itemPtr \<Rightarrow> derefItem w itemPtr = None)"

definition noMonster :: unresolved where
  "noMonster c L w = (getUserdataShared_Monster w (arg L 1) = None)"

definition noVocation :: unresolved where
  "noVocation c L w = (getUserdataShared_Vocation w (arg L 1) = None)"

definition noItemByUID :: unresolved where
  "noItemByUID c L w = (getItemByUID w (getNumber_u32 (loader c) (arg L 2)) = None)"

definition noMonsterArgument :: unresolved where
  "noMonsterArgument c L w = (monsterArgument (getMonsterByID c) (loader c) L w = None)"

definition noVocationArgument :: unresolved where
  "noVocationArgument c L w =
     (vocationArgument (getVocationId c) (getVocation c) (loader c) L w = None)"

definition itemBindings :: "(string \<times> unresolved \<times> binding) list" where
  "itemBindings =
     [(''luaItemCreate'', noItemByUID, \<lambda>c. luaItemCreate (loader c)),
      (''luaItemIsItem'', noItem, \<lambda>c. luaItemIsItem),
      (''luaItemGetContainer'', noItem, \<lambda>c. luaItemGetContainer (live c ''luaItemGetContainer'')),
      (''luaItemGetParent'', noItem, \<lambda>c. luaItemGetParent (live c ''luaItemGetParent'')),
      (''luaItemGetTopParent'', noItem, \<lambda>c. luaItemGetTopParent (live c ''luaItemGetTopParent'')),
      (''luaItemGetId'', noItem, \<lambda>c. luaItemGetId (live c ''luaItemGetId'')),
      (''luaItemClone'', noItem, \<lambda>c. luaItemClone (live c ''luaItemClone'')),
      (''luaItemSplit'', noRawItem, \<lambda>c. luaItemSplit (game c) (loader c)),
      (''luaItemRemove'', noItem, \<lambda>c. luaItemRemove (live c ''luaItemRemove'')),
      (''luaItemGetUniqueId'', noItem, \<lambda>c. luaItemGetUniqueId (live c ''luaItemGetUniqueId'')),
      (''luaItemGetActionId'', noItem, \<lambda>c. luaItemGetActionId (live c ''luaItemGetActionId'')),
      (''luaItemSetActionId'', noItem, \<lambda>c. luaItemSetActionId (loader c)),
      (''luaItemGetCount'', noItem, \<lambda>c. luaItemGetCount (live c ''luaItemGetCount'')),
      (''luaItemGetCharges'', noItem, \<lambda>c. luaItemGetCharges (live c ''luaItemGetCharges'')),
      (''luaItemGetFluidType'', noItem, \<lambda>c. luaItemGetFluidType (live c ''luaItemGetFluidType'')),
      (''luaItemGetWeight'', noItem, \<lambda>c. luaItemGetWeight (live c ''luaItemGetWeight'')),
      (''luaItemGetSubType'', noItem, \<lambda>c. luaItemGetSubType (live c ''luaItemGetSubType'')),
      (''luaItemGetName'', noItem, \<lambda>c. luaItemGetName (live c ''luaItemGetName'')),
      (''luaItemGetPluralName'', noItem, \<lambda>c. luaItemGetPluralName (live c ''luaItemGetPluralName'')),
      (''luaItemGetArticle'', noItem, \<lambda>c. luaItemGetArticle (live c ''luaItemGetArticle'')),
      (''luaItemGetPosition'', noItem, \<lambda>c. luaItemGetPosition (live c ''luaItemGetPosition'')),
      (''luaItemGetTile'', noItem, \<lambda>c. luaItemGetTile (live c ''luaItemGetTile'')),
      (''luaItemHasAttribute'', noItem, \<lambda>c. luaItemHasAttribute (live c ''luaItemHasAttribute'')),
      (''luaItemGetAttribute'', noItem, \<lambda>c. luaItemGetAttribute (live c ''luaItemGetAttribute'')),
      (''luaItemSetAttribute'', noItem, \<lambda>c. luaItemSetAttribute (loader c)),
      (''luaItemRemoveAttribute'', noItem, \<lambda>c. luaItemRemoveAttribute (loader c)),
      (''luaItemGetCustomAttribute'', noItem, \<lambda>c. luaItemGetCustomAttribute (loader c)),
      (''luaItemSetCustomAttribute'', noItem, \<lambda>c. luaItemSetCustomAttribute (loader c)),
      (''luaItemRemoveCustomAttribute'', noItem, \<lambda>c. luaItemRemoveCustomAttribute (live c ''luaItemRemoveCustomAttribute'')),
      (''luaItemCanBeMoved'', noItem, \<lambda>c. luaItemCanBeMoved (live c ''luaItemCanBeMoved'')),
      (''luaItemSerializeAttributes'', noItem, \<lambda>c. luaItemSerializeAttributes (live c ''luaItemSerializeAttributes'')),
      (''luaItemMoveTo'', noRawItem, \<lambda>c. luaItemMoveTo (live c ''luaItemMoveTo'')),
      (''luaItemTransform'', noRawItem, \<lambda>c. luaItemTransform (game c) (loader c)),
      (''luaItemDecay'', noItem, \<lambda>c. luaItemDecay (live c ''luaItemDecay'')),
      (''luaItemMoveToSlot'', noItem, \<lambda>c. luaItemMoveToSlot (live c ''luaItemMoveToSlot'')),
      (''luaItemGetDescription'', noItem, \<lambda>c. luaItemGetDescription (live c ''luaItemGetDescription'')),
      (''luaItemHasProperty'', noItem, \<lambda>c. luaItemHasProperty (live c ''luaItemHasProperty'')),
      (''luaItemGetImbuement'', noItem, \<lambda>c. luaItemGetImbuement (live c ''luaItemGetImbuement'')),
      (''luaItemGetImbuementSlot'', noItem, \<lambda>c. luaItemGetImbuementSlot (live c ''luaItemGetImbuementSlot'')),
      (''luaItemSetDuration'', noItem, \<lambda>c. luaItemSetDuration (live c ''luaItemSetDuration'')),
      (''luaItemIsInsideDepot'', noItem, \<lambda>c. luaItemIsInsideDepot (live c ''luaItemIsInsideDepot'')),
      (''luaItemIsContainer'', noItem, \<lambda>c. luaItemIsContainer (live c ''luaItemIsContainer'')),
      (''luaItemGetTier'', noItem, \<lambda>c. luaItemGetTier (live c ''luaItemGetTier'')),
      (''luaItemSetTier'', noItem, \<lambda>c. luaItemSetTier (live c ''luaItemSetTier'')),
      (''luaItemGetClassification'', noItem, \<lambda>c. luaItemGetClassification (live c ''luaItemGetClassification'')),
      (''luaItemCanReceiveAutoCarpet'', noItem, \<lambda>c. luaItemCanReceiveAutoCarpet (live c ''luaItemCanReceiveAutoCarpet'')),
      (''luaItemSetOwner'', noItem, \<lambda>c. luaItemSetOwner (live c ''luaItemSetOwner'')),
      (''luaItemGetOwnerId'', noItem, \<lambda>c. luaItemGetOwnerId),
      (''luaItemIsOwner'', noItem, \<lambda>c. luaItemIsOwner (live c ''luaItemIsOwner'')),
      (''luaItemGetOwnerName'', noItem, \<lambda>c. luaItemGetOwnerName (live c ''luaItemGetOwnerName'')),
      (''luaItemHasOwner'', noItem, \<lambda>c. luaItemHasOwner)]"

definition monsterBindings :: "(string \<times> unresolved \<times> binding) list" where
  "monsterBindings =
     [(''luaMonsterCreate'', noMonsterArgument, \<lambda>c. luaMonsterCreate (getMonsterByID c) (loader c)),
      (''luaMonsterIsMonster'', noMonster, \<lambda>c. luaMonsterIsMonster),
      (''luaMonsterGetType'', noMonster, \<lambda>c. luaMonsterGetType (live c ''luaMonsterGetType'')),
      (''luaMonsterSetType'', noMonster, \<lambda>c. luaMonsterSetType (\<lambda>_. live c ''luaMonsterSetType'')),
      (''luaMonsterGetSpawnPosition'', noMonster, \<lambda>c. luaMonsterGetSpawnPosition (live c ''luaMonsterGetSpawnPosition'')),
      (''luaMonsterIsInSpawnRange'', noMonster, \<lambda>c. luaMonsterIsInSpawnRange (live c ''luaMonsterIsInSpawnRange'')),
      (''luaMonsterIsIdle'', noMonster, \<lambda>c. luaMonsterIsIdle (live c ''luaMonsterIsIdle'')),
      (''luaMonsterSetIdle'', noMonster, \<lambda>c. luaMonsterSetIdle (live c ''luaMonsterSetIdle'')),
      (''luaMonsterIsTarget'', noMonster, \<lambda>c. luaMonsterIsTarget (live c ''luaMonsterIsTarget'')),
      (''luaMonsterIsOpponent'', noMonster, \<lambda>c. luaMonsterIsOpponent (live c ''luaMonsterIsOpponent'')),
      (''luaMonsterIsFriend'', noMonster, \<lambda>c. luaMonsterIsFriend (live c ''luaMonsterIsFriend'')),
      (''luaMonsterAddFriend'', noMonster, \<lambda>c. luaMonsterAddFriend (live c ''luaMonsterAddFriend'')),
      (''luaMonsterRemoveFriend'', noMonster, \<lambda>c. luaMonsterRemoveFriend (live c ''luaMonsterRemoveFriend'')),
      (''luaMonsterGetFriendList'', noMonster, \<lambda>c. luaMonsterGetFriendList (live c ''luaMonsterGetFriendList'')),
      (''luaMonsterGetFriendCount'', noMonster, \<lambda>c. luaMonsterGetFriendCount (live c ''luaMonsterGetFriendCount'')),
      (''luaMonsterAddTarget'', noMonster, \<lambda>c. luaMonsterAddTarget (live c ''luaMonsterAddTarget'')),
      (''luaMonsterRemoveTarget'', noMonster, \<lambda>c. luaMonsterRemoveTarget (live c ''luaMonsterRemoveTarget'')),
      (''luaMonsterGetTargetList'', noMonster, \<lambda>c. luaMonsterGetTargetList (live c ''luaMonsterGetTargetList'')),
      (''luaMonsterGetTargetCount'', noMonster, \<lambda>c. luaMonsterGetTargetCount (live c ''luaMonsterGetTargetCount'')),
      (''luaMonsterChangeTargetDistance'', noMonster, \<lambda>c. luaMonsterChangeTargetDistance (live c ''luaMonsterChangeTargetDistance'')),
      (''luaMonsterIsChallenged'', noMonster, \<lambda>c. luaMonsterIsChallenged (live c ''luaMonsterIsChallenged'')),
      (''luaMonsterSelectTarget'', noMonster, \<lambda>c. luaMonsterSelectTarget (live c ''luaMonsterSelectTarget'')),
      (''luaMonsterSearchTarget'', noMonster, \<lambda>c. luaMonsterSearchTarget (live c ''luaMonsterSearchTarget'')),
      (''luaMonsterSetSpawnPosition'', noMonster, \<lambda>c. luaMonsterSetSpawnPosition (live c ''luaMonsterSetSpawnPosition'')),
      (''luaMonsterGetRespawnType'', noMonster, \<lambda>c. luaMonsterGetRespawnType (live c ''luaMonsterGetRespawnType'')),
      (''luaMonsterGetTimeToChangeFiendish'', noMonster, \<lambda>c. luaMonsterGetTimeToChangeFiendish (live c ''luaMonsterGetTimeToChangeFiendish'')),
      (''luaMonsterSetTimeToChangeFiendish'', noMonster, \<lambda>c. luaMonsterSetTimeToChangeFiendish (loader c) (\<lambda>_. live c ''luaMonsterSetTimeToChangeFiendish'')),
      (''luaMonsterGetMonsterForgeClassification'', noMonster, \<lambda>c. luaMonsterGetMonsterForgeClassification (live c ''luaMonsterGetMonsterForgeClassification'')),
      (''luaMonsterSetMonsterForgeClassification'', noMonster, \<lambda>c. luaMonsterSetMonsterForgeClassification (getForgeClassification c) (\<lambda>_. live c ''luaMonsterSetMonsterForgeClassification'')),
      (''luaMonsterGetForgeStack'', noMonster, \<lambda>c. luaMonsterGetForgeStack (live c ''luaMonsterGetForgeStack'')),
      (''luaMonsterSetForgeStack'', noMonster, \<lambda>c. luaMonsterSetForgeStack (loader c)),
      (''luaMonsterConfigureForgeSystem'', noMonster, \<lambda>c. luaMonsterConfigureForgeSystem (live c ''luaMonsterConfigureForgeSystem'')),
      (''luaMonsterClearFiendishStatus'', noMonster, \<lambda>c. luaMonsterClearFiendishStatus (live c ''luaMonsterClearFiendishStatus'')),
      (''luaMonsterIsForgeable'', noMonster, \<lambda>c. luaMonsterIsForgeable (live c ''luaMonsterIsForgeable'')),
      (''luaMonsterGetName'', noMonster, \<lambda>c. luaMonsterGetName),
      (''luaMonsterSetName'', noMonster, \<lambda>c. luaMonsterSetName (live c ''luaMonsterSetName'')),
      (''luaMonsterHazard'', noMonster, \<lambda>c. luaMonsterHazard),
      (''luaMonsterHazardCrit'', noMonster, \<lambda>c. luaMonsterHazardCrit),
      (''luaMonsterHazardDodge'', noMonster, \<lambda>c. luaMonsterHazardDodge),
      (''luaMonsterHazardDamageBoost'', noMonster, \<lambda>c. luaMonsterHazardDamageBoost),
      (''luaMonsterHazardDefenseBoost'', noMonster, \<lambda>c. luaMonsterHazardDefenseBoost),
      (''luaMonsterAddReflectElement'', noMonster, \<lambda>c. luaMonsterAddReflectElement (live c ''luaMonsterAddReflectElement'')),
      (''luaMonsterAddDefense'', noMonster, \<lambda>c. luaMonsterAddDefense (live c ''luaMonsterAddDefense'')),
      (''luaMonsterGetDefense'', noMonster, \<lambda>c. luaMonsterGetDefense (live c ''luaMonsterGetDefense'')),
      (''luaMonsterIsDead'', noMonster, \<lambda>c. luaMonsterIsDead (live c ''luaMonsterIsDead'')),
      (''luaMonsterImmune'', noMonster, \<lambda>c. luaMonsterImmune (live c ''luaMonsterImmune''))]"

definition vocationBindings :: "(string \<times> unresolved \<times> binding) list" where
  "vocationBindings =
     [(''luaVocationCreate'', noVocationArgument, \<lambda>c. luaVocationCreate (getVocationId c) (getVocation c) (loader c)),
      (''luaVocationGetId'', noVocation, \<lambda>c. luaVocationGetId),
      (''luaVocationGetClientId'', noVocation, \<lambda>c. luaVocationGetClientId (live c ''luaVocationGetClientId'')),
      (''luaVocationGetBaseId'', noVocation, \<lambda>c. luaVocationGetBaseId (live c ''luaVocationGetBaseId'')),
      (''luaVocationGetName'', noVocation, \<lambda>c. luaVocationGetName (live c ''luaVocationGetName'')),
      (''luaVocationGetDescription'', noVocation, \<lambda>c. luaVocationGetDescription (live c ''luaVocationGetDescription'')),
      (''luaVocationGetRequiredSkillTries'', noVocation, \<lambda>c. luaVocationGetRequiredSkillTries (live c ''luaVocationGetRequiredSkillTries'')),
      (''luaVocationGetRequiredManaSpent'', noVocation, \<lambda>c. luaVocationGetRequiredManaSpent (live c ''luaVocationGetRequiredManaSpent'')),
      (''luaVocationGetCapacityGain'', noVocation, \<lambda>c. luaVocationGetCapacityGain (live c ''luaVocationGetCapacityGain'')),
      (''luaVocationGetHealthGain'', noVocation, \<lambda>c. luaVocationGetHealthGain (live c ''luaVocationGetHealthGain'')),
      (''luaVocationGetHealthGainTicks'', noVocation, \<lambda>c. luaVocationGetHealthGainTicks (live c ''luaVocationGetHealthGainTicks'')),
      (''luaVocationGetHealthGainAmount'', noVocation, \<lambda>c. luaVocationGetHealthGainAmount (live c ''luaVocationGetHealthGainAmount'')),
      (''luaVocationGetManaGain'', noVocation, \<lambda>c. luaVocationGetManaGain (live c ''luaVocationGetManaGain'')),
      (''luaVocationGetManaGainTicks'', noVocation, \<lambda>c. luaVocationGetManaGainTicks (live c ''luaVocationGetManaGainTicks'')),
      (''luaVocationGetManaGainAmount'', noVocation, \<lambda>c. luaVocationGetManaGainAmount (live c ''luaVocationGetManaGainAmount'')),
      (''luaVocationGetMaxSoul'', noVocation, \<lambda>c. luaVocationGetMaxSoul (live c ''luaVocationGetMaxSoul'')),
      (''luaVocationGetSoulGainTicks'', noVocation, \<lambda>c. luaVocationGetSoulGainTicks (live c ''luaVocationGetSoulGainTicks'')),
      (''luaVocationGetBaseAttackSpeed'', noVocation, \<lambda>c. luaVocationGetBaseAttackSpeed (live c ''luaVocationGetBaseAttackSpeed'')),
      (''luaVocationGetAttackSpeed'', noVocation, \<lambda>c. luaVocationGetAttackSpeed (live c ''luaVocationGetAttackSpeed'')),
      (''luaVocationGetBaseSpeed'', noVocation, \<lambda>c. luaVocationGetBaseSpeed (live c ''luaVocationGetBaseSpeed'')),
      (''luaVocationGetDemotion'', noVocation, \<lambda>c. luaVocationGetDemotion (live c ''luaVocationGetDemotion'')),
      (''luaVocationGetPromotion'', noVocation, \<lambda>c. luaVocationGetPromotion (live c ''luaVocationGetPromotion''))]"

definition bindings :: "(string \<times> unresolved \<times> binding) list" where
  "bindings = itemBindings @ monsterBindings @ vocationBindings"

text \<open>
  What the caller sees when the handle does not resolve: nil and nothing else; or the
  not-found error of the item or of the monster reported and nothing else changed, with
  no result or false as result (the result of hasOwner is left open); or, for the two type
  tests, false and nothing else.
\<close>

definition notFoundOutcome :: "string \<Rightarrow> lua_value list \<times> World \<Rightarrow> World \<Rightarrow> bool" where
  "notFoundOutcome name out w =
     (out = ([LNil], w)
      \<or> ((snd out = w\<lparr>calls := calls w @ [ReportError (ErrorDesc LUA_ERROR_ITEM_NOT_FOUND)]\<rparr>
           \<or> snd out = w\<lparr>calls := calls w @ [ReportError (ErrorDesc LUA_ERROR_MONSTER_NOT_FOUND)]\<rparr>)
          \<and> (fst out = [] \<or> fst out = [LBoolean False] \<or> name = ''luaItemHasOwner''))
      \<or> (out = ([LBoolean False], w)
          \<and> (name = ''luaItemIsItem'' \<or> name = ''luaMonsterIsMonster'')))"

text \<open>Sample collaborators: the loader and the game of the samples and empty tables.\<close>

definition sampleCollaborators :: Collaborators where
  "sampleCollaborators =
     \<lparr>loader = sampleLoader, game = sampleGame,
      live = (\<lambda>name item L w. (lua_return L [LBoolean True] 1, w)),
      getMonsterByID = (\<lambda>w n. None),
      getVocationId = (\<lambda>name. 0),
      getVocation = (\<lambda>w n. None),
      getForgeClassification = (\<lambda>v. 0)\<rparr>"

section \<open>Properties\<close>

subsection \<open>Shared facts\<close>

lemma lua_return_one [simp]: "lua_return L [v] (Suc 0) = [v]" "lua_return L [v] 1 = [v]"
  by (simp_all add: lua_return_def)

lemma lua_return_none [simp]: "lua_return L xs 0 = []"
  by (simp add: lua_return_def)

lemma sample_item_live: "getUserdataShared_Item sampleWorld (arg [LUserdata 0, x, y] 1) = Some 7"
  by (simp add: getUserdataShared_Item_def sampleWorld_def arg_def)

lemma live_item_in_heap:
  "getUserdataShared_Item w v = Some item \<Longrightarrow> \<exists>it. items w item = Some it"
  by (auto simp: getUserdataShared_Item_def split: lua_value.splits option.splits)

lemma live_monster_in_heap:
  "getUserdataShared_Monster w v = Some monster \<Longrightarrow> \<exists>m. monsters w monster = Some m"
  by (auto simp: getUserdataShared_Monster_def split: lua_value.splits option.splits)

subsection \<open>Handles across split and transform\<close>

lemma find_unique:
  assumes "x \<in> set xs" "P x" "\<forall>y\<in>set xs. P y \<longrightarrow> y = x"
  shows "find P xs = Some x"
  using assms
proof (induction xs)
  case Nil
  then show ?case by simp
next
  case (Cons a xs)
  show ?case
  proof (cases "P a")
    case True
    then have "a = x" using Cons.prems(3) by simp
    with True show ?thesis by simp
  next
    case False
    then have "x \<in> set xs" using Cons.prems(1,2) by auto
    moreover have "\<forall>y\<in>set xs. P y \<longrightarrow> y = x" using Cons.prems(3) by simp
    ultimately have "find P xs = Some x" using Cons.IH Cons.prems(2) by blast
    with False show ?thesis by simp
  qed
qed

lemma addThing_existing:
  assumes "holdsHandle w item uid"
  shows "addThing item w = (uid, w)"
proof -
  have bounds: "1 \<le> uid" "uid \<le> lastUID w"
    using assms unfolding holdsHandle_def by blast+
  have mem: "uid \<in> set [1..<Suc (lastUID w)]"
    using bounds by auto
  have own: "localMap w uid = Some item"
    using assms unfolding holdsHandle_def by blast
  have uniq: "\<forall>y\<in>set [1..<Suc (lastUID w)]. localMap w y = Some item \<longrightarrow> y = uid"
    using assms unfolding holdsHandle_def by blast
  have "find (\<lambda>h. localMap w h = Some item) [1..<Suc (lastUID w)] = Some uid"
    using mem own uniq by (rule find_unique)
  then show ?thesis
    unfolding addThing_def by (simp only: option.case)
qed

lemma rebindAfter_localMap:
  "localMap (rebindAfter uid item newItem w) =
     (let m = (if isRemoved w item then (localMap w)(uid := None) else localMap w) in
      case newItem of
        Some n \<Rightarrow> (if n \<noteq> item then m(uid \<mapsto> n) else m)
      | None \<Rightarrow> m)"
  by (simp add: rebindAfter_def Let_def removeItemByUID_def insertItem_def split: option.splits)

lemma rebindAfter_items: "items (rebindAfter uid item newItem w) = items w"
  by (simp add: rebindAfter_def Let_def removeItemByUID_def insertItem_def split: option.splits)

lemma handleOutcome_core:
  assumes map: "localMap w' = localMap (rebindAfter uid item newItem w2)"
    and rem: "\<And>r. isRemoved w' r = isRemoved w2 r"
    and own: "localMap w2 uid = Some item"
    and uniq: "\<And>h. localMap w2 h = Some item \<Longrightarrow> h = uid"
  shows "handleOutcome uid item newItem w2 w'"
proof -
  have m: "localMap w' h =
      (if h = uid then
         (case newItem of
            Some n \<Rightarrow> (if n \<noteq> item then Some n
                       else if isRemoved w2 item then None else Some item)
          | None \<Rightarrow> (if isRemoved w2 item then None else Some item))
       else localMap w2 h)" for h
    unfolding map rebindAfter_localMap using own
    by (cases newItem) (simp_all add: Let_def)
  show ?thesis
    unfolding handleOutcome_def noDanglingHandle_def getItemByUID_def rem
  proof (intro conjI allI impI)
    fix n assume "newItem = Some n \<and> n \<noteq> item"
    then show "localMap w' uid = Some n" by (simp add: m)
  next
    assume "(newItem = None \<or> newItem = Some item) \<and> isRemoved w2 item"
    then show "localMap w' uid = None" by (auto simp: m)
  next
    assume "(newItem = None \<or> newItem = Some item) \<and> \<not> isRemoved w2 item"
    then show "localMap w' uid = Some item" by (auto simp: m)
  next
    fix h assume "h \<noteq> uid"
    then show "localMap w' h = localMap w2 h" by (simp add: m)
  next
    fix h r
    assume pre: "(\<forall>h r. localMap w2 h = Some r \<and> r \<noteq> item \<longrightarrow> \<not> isRemoved w2 r)
                 \<and> (\<forall>n. newItem = Some n \<longrightarrow> \<not> isRemoved w2 n)"
      and hr: "localMap w' h = Some r"
    show "\<not> isRemoved w2 r"
    proof (cases "h = uid")
      case True
      with hr pre show ?thesis
        by (cases newItem) (auto simp: m split: if_splits)
    next
      case False
      with hr have "localMap w2 h = Some r" by (simp add: m)
      moreover have "r \<noteq> item"
        using uniq False calculation by blast
      ultimately show ?thesis using pre by blast
    qed
  qed
qed

lemma getRawUserData_deref:
  "derefItem w u = Some (item, it) \<Longrightarrow> getRawUserData w (LUserdata u) = Some u"
  by (auto simp: getRawUserData_def derefItem_def split: option.splits)

lemma luaItemTransform_mutating:
  assumes ptr: "arg L 1 = LUserdata u"
    and live: "derefItem w u = Some (item, it)"
    and handle: "holdsHandle w item uid"
    and tid: "itemId = (if isNumber (arg L 2) then getNumber_u16 ld (arg L 2)
                        else getItemIdByName ld (getString ld (arg L 2)))"
    and named: "isNumber (arg L 2) \<or> itemId \<noteq> 0"
    and st: "st = getNumberOr (getNumber_i32 ld) L 3 (- 1)"
    and differs: "\<not> (getID it = itemId \<and> (st = - 1 \<or> st = subType it))"
    and run: "transformItem g item itemId
                (if typeStackable (itemTypes ld itemId)
                 then min st (stackSize (itemTypes ld itemId)) else st) w = (newItem, w2)"
  shows "luaItemTransform g ld L w =
           ([LBoolean True],
            (rebindAfter uid item newItem w2)
              \<lparr>userdata := (userdata (rebindAfter uid item newItem w2))(u \<mapsto> newItem)\<rparr>)"
proof -
  have raw: "getRawUserData w (arg L 1) = Some u"
    using getRawUserData_deref [OF live] ptr by simp
  have nil: "\<not> (\<not> isNumber (arg L 2) \<and> itemId = 0)"
    using named by blast
  have d: "(getID it = itemId \<and> (st = - 1 \<or> st = subType it)) = False"
    using differs by simp
  have n: "(\<not> isNumber (arg L 2) \<and> itemId = 0) = False"
    using named by blast
  show ?thesis
    unfolding luaItemTransform_def raw option.case live prod.case Let_def
      tid [symmetric] st [symmetric] addThing_existing [OF handle]
    by (simp only: d n if_False run prod.case lua_return_one)
qed

lemma setItemCount_registry:
  "localMap (setItemCount r c w) = localMap w" "lastUID (setItemCount r c w) = lastUID w"
  by (simp_all add: setItemCount_def updItem_def split: option.splits)

lemma luaItemSplit_run:
  assumes ptr: "arg L 1 = LUserdata u"
    and live: "derefItem w u = Some (item, it)"
    and handle: "holdsHandle w item uid"
    and ok: "stackable it" "\<not> removed it"
    and cnt: "count = min (getNumberOr (getNumber_u16 ld) L 2 1) (itemCount it)"
    and cl: "clone g item w = (Some split, wc)"
    and frame: "localMap wc = localMap w" "lastUID wc = lastUID w"
    and run: "transformItem g item (getID (getItem (setItemCount split count wc) item it))
                (uint (itemCount it - count)) (setItemCount split count wc) = (newItem, w2)"
  shows "luaItemSplit g ld L w =
           (let w3 = rebindAfter uid item newItem w2;
                w4 = w3\<lparr>userdata := (userdata w3)(u \<mapsto> newItem)\<rparr>;
                w5 = addTempItem split (setParent split VirtualCylinder w4)
            in ([fst (pushUserdata split w5)], snd (pushUserdata split w5)))"
proof -
  have raw: "getRawUserData w (arg L 1) = Some u"
    using getRawUserData_deref [OF live] ptr by simp
  have "holdsHandle (setItemCount split count wc) item uid"
    using handle frame by (simp add: holdsHandle_def setItemCount_registry)
  note add = addThing_existing [OF this]
  have g: "(\<not> stackable it \<or> removed it) = False"
    using ok by simp
  show ?thesis
    unfolding luaItemSplit_def raw option.case live prod.case Let_def cnt [symmetric]
    using ok by (simp add: cl add run split_beta)
qed

lemma isRemoved_eq:
  assumes "\<And>r. map_option removed (items w' r) = map_option removed (items w r)"
  shows "isRemoved w' r = isRemoved w r"
proof -
  have "map_option removed (items w' r) = map_option removed (items w r)" by (rule assms)
  then show ?thesis
    by (cases "items w' r"; cases "items w r") (simp_all add: isRemoved_def)
qed

lemma split_tail_registry:
  "localMap (snd (pushUserdata s (addTempItem s (setParent s c (w\<lparr>userdata := ud\<rparr>))))) = localMap w"
  by (simp add: pushUserdata_def addTempItem_def setParent_def updItem_def split: option.splits)

lemma split_tail_removed:
  "isRemoved (snd (pushUserdata s (addTempItem s (setParent s c (w\<lparr>userdata := ud\<rparr>))))) r = isRemoved w r"
  by (rule isRemoved_eq)
     (simp add: pushUserdata_def addTempItem_def setParent_def updItem_def split: option.splits)

text \<open>
  C1. For a live item that holds the handle uid, a transform that does not return early
  and a split both take the handle, run the mutation, and leave the handle resolving to
  the new item when the mutation returned one that differs from the original, to nothing
  when the original is removed and not replaced, and to the original otherwise; every
  other handle is untouched. If the mutation removed no other item that has a handle and
  returned a live item (or none), no handle resolves to a removed item afterwards.
\<close>

theorem handle_rebinding:
  assumes ptr: "arg L 1 = LUserdata u"
    and live: "derefItem w u = Some (item, it)"
    and handle: "holdsHandle w item uid"
  shows "(\<forall>itemId st newItem w2.
            itemId = (if isNumber (arg L 2) then getNumber_u16 ld (arg L 2)
                      else getItemIdByName ld (getString ld (arg L 2)))
            \<and> (isNumber (arg L 2) \<or> itemId \<noteq> 0)
            \<and> st = getNumberOr (getNumber_i32 ld) L 3 (- 1)
            \<and> \<not> (getID it = itemId \<and> (st = - 1 \<or> st = subType it))
            \<and> transformItem g item itemId
                  (if typeStackable (itemTypes ld itemId)
                   then min st (stackSize (itemTypes ld itemId)) else st) w = (newItem, w2)
            \<and> localMap w2 = localMap w
            \<longrightarrow> fst (luaItemTransform g ld L w) = [LBoolean True]
                \<and> userdata (snd (luaItemTransform g ld L w)) u = Some newItem
                \<and> handleOutcome uid item newItem w2 (snd (luaItemTransform g ld L w)))
       \<and> (\<forall>count split wc newItem w2.
            stackable it \<and> \<not> removed it
            \<and> count = min (getNumberOr (getNumber_u16 ld) L 2 1) (itemCount it)
            \<and> clone g item w = (Some split, wc)
            \<and> localMap wc = localMap w \<and> lastUID wc = lastUID w
            \<and> transformItem g item (getID (getItem (setItemCount split count wc) item it))
                  (uint (itemCount it - count)) (setItemCount split count wc) = (newItem, w2)
            \<and> localMap w2 = localMap w
            \<longrightarrow> handleOutcome uid item newItem w2 (snd (luaItemSplit g ld L w)))"
proof (intro conjI allI impI)
  fix itemId st newItem w2
  assume h: "itemId = (if isNumber (arg L 2) then getNumber_u16 ld (arg L 2)
                      else getItemIdByName ld (getString ld (arg L 2)))
            \<and> (isNumber (arg L 2) \<or> itemId \<noteq> 0)
            \<and> st = getNumberOr (getNumber_i32 ld) L 3 (- 1)
            \<and> \<not> (getID it = itemId \<and> (st = - 1 \<or> st = subType it))
            \<and> transformItem g item itemId
                  (if typeStackable (itemTypes ld itemId)
                   then min st (stackSize (itemTypes ld itemId)) else st) w = (newItem, w2)
            \<and> localMap w2 = localMap w"
  have eq: "luaItemTransform g ld L w =
           ([LBoolean True],
            (rebindAfter uid item newItem w2)
              \<lparr>userdata := (userdata (rebindAfter uid item newItem w2))(u \<mapsto> newItem)\<rparr>)"
    using h by (intro luaItemTransform_mutating [OF ptr live handle]) blast+
  have own: "localMap w2 uid = Some item" and uniq: "\<And>k. localMap w2 k = Some item \<Longrightarrow> k = uid"
    using h handle unfolding holdsHandle_def by auto
  show "fst (luaItemTransform g ld L w) = [LBoolean True]"
    by (simp add: eq)
  show "userdata (snd (luaItemTransform g ld L w)) u = Some newItem"
    by (simp add: eq)
  show "handleOutcome uid item newItem w2 (snd (luaItemTransform g ld L w))"
  proof (rule handleOutcome_core [OF _ _ own uniq])
    show "localMap (snd (luaItemTransform g ld L w)) = localMap (rebindAfter uid item newItem w2)"
      by (simp add: eq)
    show "isRemoved (snd (luaItemTransform g ld L w)) r = isRemoved w2 r" for r
      by (rule isRemoved_eq) (simp add: eq rebindAfter_items)
  qed
next
  fix count split wc newItem w2
  assume h: "stackable it \<and> \<not> removed it
            \<and> count = min (getNumberOr (getNumber_u16 ld) L 2 1) (itemCount it)
            \<and> clone g item w = (Some split, wc)
            \<and> localMap wc = localMap w \<and> lastUID wc = lastUID w
            \<and> transformItem g item (getID (getItem (setItemCount split count wc) item it))
                  (uint (itemCount it - count)) (setItemCount split count wc) = (newItem, w2)
            \<and> localMap w2 = localMap w"
  have eq: "luaItemSplit g ld L w =
           (let w3 = rebindAfter uid item newItem w2;
                w4 = w3\<lparr>userdata := (userdata w3)(u \<mapsto> newItem)\<rparr>;
                w5 = addTempItem split (setParent split VirtualCylinder w4)
            in ([fst (pushUserdata split w5)], snd (pushUserdata split w5)))"
    using h by (intro luaItemSplit_run [OF ptr live handle]) blast+
  have own: "localMap w2 uid = Some item" and uniq: "\<And>k. localMap w2 k = Some item \<Longrightarrow> k = uid"
    using h handle unfolding holdsHandle_def by auto
  show "handleOutcome uid item newItem w2 (snd (luaItemSplit g ld L w))"
  proof (rule handleOutcome_core [OF _ _ own uniq])
    show "localMap (snd (luaItemSplit g ld L w)) = localMap (rebindAfter uid item newItem w2)"
      by (simp add: eq Let_def split_tail_registry)
    show "isRemoved (snd (luaItemSplit g ld L w)) r = isRemoved w2 r" for r
    proof -
      have "isRemoved (snd (luaItemSplit g ld L w)) r = isRemoved (rebindAfter uid item newItem w2) r"
        by (simp add: eq Let_def split_tail_removed)
      also have "\<dots> = isRemoved w2 r"
        by (rule isRemoved_eq) (simp add: rebindAfter_items)
      finally show ?thesis .
    qed
  qed
qed

theorem handle_rebinding_witness:
  "getItemByUID (snd (luaItemTransform sampleGame sampleLoader [LUserdata 0, LNumber 3035] handleWorld)) 1
     = Some 8
   \<and> noDanglingHandle (snd (luaItemTransform sampleGame sampleLoader [LUserdata 0, LNumber 3035] handleWorld))
   \<and> getItemByUID (snd (luaItemSplit sampleGame sampleLoader [LUserdata 0, LNumber 10] handleWorld)) 1
     = None
   \<and> noDanglingHandle (snd (luaItemSplit sampleGame sampleLoader [LUserdata 0, LNumber 10] handleWorld))"
proof -
  have live: "derefItem handleWorld 0 = Some (7, sampleItem)"
    by (simp add: derefItem_def handleWorld_def sampleWorld_def)
  have handle: "holdsHandle handleWorld 7 1"
    by (auto simp: holdsHandle_def handleWorld_def sampleWorld_def)
  have reg: "localMap handleWorld = [1 \<mapsto> 7]" "lastUID handleWorld = 1"
    "items handleWorld = [7 \<mapsto> sampleItem]"
    by (simp_all add: handleWorld_def sampleWorld_def)
  \<comment> \<open>transform into another type: the old item is removed, the handle follows the new one\<close>
  define t2 where "t2 = snd (transformItem sampleGame 7 3035 (- 1) handleWorld)"
  have trun: "transformItem sampleGame 7 3035 (- 1) handleWorld = (Some 8, t2)"
    by (simp add: t2_def sampleGame_def reg sampleItem_def)
  have t2: "localMap t2 = localMap handleWorld" "isRemoved t2 7" "\<not> isRemoved t2 8"
    by (simp_all add: t2_def sampleGame_def reg isRemoved_def sampleItem_def)
  have targs: "arg [LUserdata 0, LNumber 3035] 1 = LUserdata 0"
    "isNumber (arg [LUserdata 0, LNumber 3035] 2)"
    "getNumber_u16 sampleLoader (arg [LUserdata 0, LNumber 3035] 2) = 3035"
    "getNumberOr (getNumber_i32 sampleLoader) [LUserdata 0, LNumber 3035] 3 (- 1) = - 1"
    "typeStackable (itemTypes sampleLoader 3035) = False"
    "getID sampleItem = 3031"
    by (simp_all add: arg_def isNumber_def sampleLoader_def getNumberOr_def lua_gettop_def
        sampleItem_def)
  have T: "handleOutcome 1 7 (Some 8) t2
             (snd (luaItemTransform sampleGame sampleLoader [LUserdata 0, LNumber 3035] handleWorld))"
    using handle_rebinding [OF targs(1) live handle, where g = sampleGame and ld = sampleLoader,
        THEN conjunct1, rule_format, of 3035 "- 1" "Some 8" t2]
      targs trun t2 by simp
  \<comment> \<open>split of the whole stack: the item is consumed and the handle is dropped\<close>
  define wc where "wc = snd (clone sampleGame 7 handleWorld)"
  have crun: "clone sampleGame 7 handleWorld = (Some 9, wc)"
    by (simp add: wc_def sampleGame_def reg)
  have wc: "localMap wc = localMap handleWorld" "lastUID wc = lastUID handleWorld"
    "items wc 7 = Some sampleItem"
    by (simp_all add: wc_def sampleGame_def reg)
  define s2 where "s2 = snd (transformItem sampleGame 7 3031 0 (setItemCount 9 10 wc))"
  have it7: "items (setItemCount 9 10 wc) 7 = Some sampleItem"
    using wc(3) by (simp add: setItemCount_def updItem_def split: option.splits)
  have srun: "transformItem sampleGame 7 3031 0 (setItemCount 9 10 wc) = (None, s2)"
    by (simp add: s2_def sampleGame_def it7 sampleItem_def)
  have s2: "localMap s2 = localMap handleWorld" "isRemoved s2 7"
    using wc(1) by (simp_all add: s2_def sampleGame_def it7 sampleItem_def isRemoved_def
        setItemCount_registry)
  have id7: "getID (getItem (setItemCount 9 10 wc) 7 sampleItem) = 3031"
    by (simp add: getItem_def it7 sampleItem_def)
  have sargs: "arg [LUserdata 0, LNumber 10] 1 = LUserdata 0"
    "min (getNumberOr (getNumber_u16 sampleLoader) [LUserdata 0, LNumber 10] 2 1) (itemCount sampleItem) = 10"
    "stackable sampleItem" "\<not> removed sampleItem" "itemCount sampleItem = 10"
    "getID sampleItem = 3031"
    by (simp_all add: arg_def sampleLoader_def getNumberOr_def lua_gettop_def sampleItem_def)
  have S: "handleOutcome 1 7 None s2
             (snd (luaItemSplit sampleGame sampleLoader [LUserdata 0, LNumber 10] handleWorld))"
    using handle_rebinding [OF sargs(1) live handle, where g = sampleGame and ld = sampleLoader,
        THEN conjunct2, rule_format, of 10 9 wc None s2]
      sargs crun wc srun s2 id7 by simp
  have others: "\<forall>h r. getItemByUID w2 h = Some r \<and> r \<noteq> 7 \<longrightarrow> \<not> isRemoved w2 r"
    if "localMap w2 = localMap handleWorld" for w2
    using that by (simp add: getItemByUID_def reg)
  show ?thesis
    using T S t2 s2 others [OF t2(1)] others [OF s2(1)]
    unfolding handleOutcome_def by simp
qed

subsection \<open>Protected attribute keys\<close>

text \<open>
  C2 (as amended). For a live item, setAttribute on the duration-timestamp key and
  removeAttribute on the unique-id key or on the duration-timestamp key are rejected: an
  error is reported, false is returned and nothing but the error log changes. setAttribute
  on the unique-id key is not rejected: it takes the default integer path, stores the value
  and returns true.
\<close>

theorem protected_key_rejection:
  assumes "getUserdataShared_Item w (arg L 1) = Some item"
  shows "(resolveAttribute ld (arg L 2) = DURATION_TIMESTAMP \<longrightarrow>
            luaItemSetAttribute ld L w =
              ([LBoolean False], w\<lparr>calls := calls w @ [ReportError (Text msg_set_duration_timestamp)]\<rparr>))
       \<and> (resolveAttribute ld (arg L 2) = DURATION_TIMESTAMP \<longrightarrow>
            luaItemRemoveAttribute ld L w =
              ([LBoolean False], w\<lparr>calls := calls w @ [ReportError (Text msg_erase_duration_timestamp)]\<rparr>))
       \<and> (resolveAttribute ld (arg L 2) = UNIQUEID \<longrightarrow>
            luaItemRemoveAttribute ld L w =
              ([LBoolean False], w\<lparr>calls := calls w @ [ReportError (Text msg_erase_uid)]\<rparr>))
       \<and> (resolveAttribute ld (arg L 2) = UNIQUEID \<longrightarrow>
            luaItemSetAttribute ld L w =
              ([LBoolean True],
               updateTileFlags item
                 (setAttribute item UNIQUEID (IntValue (getNumber_i64 ld (arg L 3))) w)))"
  using assms
  by (simp add: luaItemSetAttribute_def luaItemRemoveAttribute_def reportErrorFunc_def call_def)

theorem protected_key_rejection_witness:
  "luaItemSetAttribute sampleLoader [LUserdata 0, LNumber 29, LNumber 5] sampleWorld =
     ([LBoolean False], sampleWorld\<lparr>calls := [ReportError (Text msg_set_duration_timestamp)]\<rparr>)
   \<and> luaItemRemoveAttribute sampleLoader [LUserdata 0, LString ''uid'', LNil] sampleWorld =
     ([LBoolean False], sampleWorld\<lparr>calls := [ReportError (Text msg_erase_uid)]\<rparr>)"
proof -
  have a: "resolveAttribute sampleLoader (arg [LUserdata 0, LNumber 29, LNumber 5] 2) = DURATION_TIMESTAMP"
    by (simp add: resolveAttribute_def arg_def isNumber_def sampleLoader_def)
  have b: "resolveAttribute sampleLoader (arg [LUserdata 0, LString ''uid'', LNil] 2) = UNIQUEID"
    by (simp add: resolveAttribute_def arg_def isNumber_def isString_def sampleLoader_def)
  have c: "calls sampleWorld = []" by (simp add: sampleWorld_def)
  show ?thesis
    using protected_key_rejection [where ld = sampleLoader and L = "[LUserdata 0, LNumber 29, LNumber 5]"
            and w = sampleWorld and item = 7]
          protected_key_rejection [where ld = sampleLoader and L = "[LUserdata 0, LString ''uid'', LNil]"
            and w = sampleWorld and item = 7]
          a b c sample_item_live by simp
qed

text \<open>
  Writing the unique-id key through setAttribute returns true, reports no error and
  changes the attribute.
\<close>

theorem unique_id_write_accepted:
  "luaItemSetAttribute sampleLoader [LUserdata 0, LNumber 3, LNumber 5] sampleWorld =
     ([LBoolean True],
      sampleWorld\<lparr>items := [7 \<mapsto> sampleItem\<lparr>attributes := [UNIQUEID \<mapsto> IntValue 5]\<rparr>],
                  calls := [UpdateTileFlags 7]\<rparr>)"
  by (simp add: luaItemSetAttribute_def getUserdataShared_Item_def sampleWorld_def arg_def
      resolveAttribute_def isNumber_def sampleLoader_def updateTileFlags_def call_def
      setAttribute_def updItem_def sampleItem_def)

subsection \<open>Decay state and duration\<close>

text \<open>
  C3. For a live item, setAttribute on the decay-state key returns true and does nothing
  to the item but call the decay engine: stopDecay when the value is DECAYING_FALSE or
  DECAYING_STOPPING, startDecay for every other value. On the duration key it sets the
  decay state to DECAYING_PENDING, stores the duration and calls startDecay.
\<close>

theorem decay_coupling:
  assumes "getUserdataShared_Item w (arg L 1) = Some item"
  shows "(resolveAttribute ld (arg L 2) = DECAYSTATE \<longrightarrow>
            luaItemSetAttribute ld L w =
              ([LBoolean True],
               w\<lparr>calls := calls w @
                  [if getNumber_decayState ld (arg L 3) = DECAYING_FALSE
                      \<or> getNumber_decayState ld (arg L 3) = DECAYING_STOPPING
                   then StopDecay item else StartDecay item]\<rparr>))
       \<and> (resolveAttribute ld (arg L 2) = DURATION \<longrightarrow>
            fst (luaItemSetAttribute ld L w) = [LBoolean True]
            \<and> itemAttribute (snd (luaItemSetAttribute ld L w)) item DECAYSTATE
                = Some (DecayValue DECAYING_PENDING)
            \<and> itemAttribute (snd (luaItemSetAttribute ld L w)) item DURATION
                = Some (IntValue (word_of_int (getNumber_i32 ld (arg L 3))))
            \<and> calls (snd (luaItemSetAttribute ld L w)) = calls w @ [StartDecay item])"
proof -
  obtain it where it: "items w item = Some it"
    using live_item_in_heap [OF assms] by blast
  show ?thesis
    using assms it
    by (simp add: luaItemSetAttribute_def call_def Let_def itemAttribute_def
        setDuration_def setDecaying_def setAttribute_def updItem_def)
qed

theorem decay_coupling_witness:
  "luaItemSetAttribute sampleLoader [LUserdata 0, LNumber 20, LNumber 3] sampleWorld =
     ([LBoolean True], sampleWorld\<lparr>calls := [StopDecay 7]\<rparr>)
   \<and> luaItemSetAttribute sampleLoader [LUserdata 0, LNumber 20, LNumber 1] sampleWorld =
     ([LBoolean True], sampleWorld\<lparr>calls := [StartDecay 7]\<rparr>)
   \<and> itemAttribute (snd (luaItemSetAttribute sampleLoader [LUserdata 0, LString ''duration'', LNumber 600] sampleWorld))
       7 DECAYSTATE = Some (DecayValue DECAYING_PENDING)
   \<and> itemAttribute (snd (luaItemSetAttribute sampleLoader [LUserdata 0, LString ''duration'', LNumber 600] sampleWorld))
       7 DURATION = Some (IntValue 600)
   \<and> calls (snd (luaItemSetAttribute sampleLoader [LUserdata 0, LString ''duration'', LNumber 600] sampleWorld))
       = [StartDecay 7]"
proof -
  have key: "resolveAttribute sampleLoader (arg [LUserdata 0, LNumber 20, v] 2) = DECAYSTATE"
    "resolveAttribute sampleLoader (arg [LUserdata 0, LString ''duration'', v] 2) = DURATION" for v
    by (simp_all add: resolveAttribute_def arg_def isNumber_def isString_def sampleLoader_def)
  have val: "getNumber_decayState sampleLoader (arg [LUserdata 0, k, LNumber 3] 3) = DECAYING_STOPPING"
    "getNumber_decayState sampleLoader (arg [LUserdata 0, k, LNumber 1] 3) = DECAYING_TRUE"
    "getNumber_i32 sampleLoader (arg [LUserdata 0, k, LNumber 600] 3) = 600" for k
    by (simp_all add: arg_def sampleLoader_def)
  have c: "calls sampleWorld = []"
    by (simp add: sampleWorld_def)
  note a = decay_coupling [OF sample_item_live [of "LNumber 20" "LNumber 3"], where ld = sampleLoader]
  note b = decay_coupling [OF sample_item_live [of "LNumber 20" "LNumber 1"], where ld = sampleLoader]
  note d = decay_coupling [OF sample_item_live [of "LString ''duration''" "LNumber 600"], where ld = sampleLoader]
  show ?thesis
    using a b d by (simp add: key val c)
qed

subsection \<open>Forge stack and status icon\<close>

text \<open>
  C4. For a live monster and the stack value read from the second argument (0 when it is
  absent), setForgeStack stores the stack, sets the icon named forge to Influenced with
  the stack as badge when the stack is at most 14 (the 8-bit badge then equals the stack)
  and to Fiendish with badge 0 when it is 15 or more, and then calls updateCreatureIcon
  and sendUpdateCreature for the monster, in this order.
\<close>

theorem forge_icon_threshold:
  assumes live: "getUserdataShared_Monster w (arg L 1) = Some monster"
    and m: "monsters w monster = Some m"
    and stack: "stack = getNumberOr (getNumber_u16 ld) L 2 0"
  shows "snd (luaMonsterSetForgeStack ld L w) =
           w\<lparr>monsters := (monsters w)
                (monster \<mapsto> m\<lparr>forgeStack := stack,
                              icons := (icons m)
                                (''forge'' \<mapsto>
                                   (if stack \<le> 14
                                    then \<lparr>modification = Influenced, badge = ucast stack\<rparr>
                                    else \<lparr>modification = Fiendish, badge = 0\<rparr>))\<rparr>),
              calls := calls w @ [UpdateCreatureIcon monster, SendUpdateCreature monster]\<rparr>
       \<and> (stack \<le> 14 \<longrightarrow> unat (ucast stack :: 8 word) = unat stack)"
proof -
  have lt: "(stack < 15) = (stack \<le> 14)"
    by (simp add: word_less_nat_alt word_le_nat_alt) arith
  have small: "unat (ucast stack :: 8 word) = unat stack" if "stack \<le> 14"
  proof -
    have "unat stack \<le> 14" using that by (simp add: word_le_nat_alt)
    then show ?thesis by (simp add: unsigned_ucast_eq take_bit_nat_eq_self)
  qed
  show ?thesis
    using live m small
    by (simp add: luaMonsterSetForgeStack_def stack [symmetric] Let_def lt setForgeStack_def
        setIcon_def updMonster_def call_def)
qed

theorem forge_icon_threshold_witness:
  "readMonster (snd (luaMonsterSetForgeStack sampleLoader [LUserdata 0, LNumber 14] monsterWorld)) 3
      (\<lambda>m. icons m ''forge'') None = Some \<lparr>modification = Influenced, badge = 14\<rparr>
   \<and> readMonster (snd (luaMonsterSetForgeStack sampleLoader [LUserdata 0, LNumber 15] monsterWorld)) 3
      (\<lambda>m. icons m ''forge'') None = Some \<lparr>modification = Fiendish, badge = 0\<rparr>
   \<and> calls (snd (luaMonsterSetForgeStack sampleLoader [LUserdata 0, LNumber 15] monsterWorld))
      = [UpdateCreatureIcon 3, SendUpdateCreature 3]"
proof -
  have live: "getUserdataShared_Monster monsterWorld (arg [LUserdata 0, v] 1) = Some 3" for v
    by (simp add: getUserdataShared_Monster_def monsterWorld_def arg_def)
  have m: "monsters monsterWorld 3 = Some sampleMonster"
    by (simp add: monsterWorld_def)
  have s14: "(14 :: 16 word) = getNumberOr (getNumber_u16 sampleLoader) [LUserdata 0, LNumber 14] 2 0"
    and s15: "(15 :: 16 word) = getNumberOr (getNumber_u16 sampleLoader) [LUserdata 0, LNumber 15] 2 0"
    by (simp_all add: getNumberOr_def lua_gettop_def arg_def sampleLoader_def)
  have c: "calls monsterWorld = []"
    by (simp add: monsterWorld_def)
  show ?thesis
    using forge_icon_threshold [OF live m s14] forge_icon_threshold [OF live m s15]
    by (simp add: readMonster_def c)
qed

subsection \<open>Overflow of the script call gate\<close>

text \<open>
  With a target creature that is alive, the overflow branch returns false, pushes no
  function, leaves the environment stack as it was and logs the class and the name of the
  creature; once one scope has been left, a new call enters and pushes its function.
\<close>

lemma overflow_live_target:
  assumes full: "maxDepth s \<le> length (scriptEnv s)"
    and sid: "scriptId' \<noteq> - 1"
    and target: "m_targetCreature cb = Some c"
  shows "startScriptInterface cb scriptId' s =
           Inr (False,
                s\<lparr>logged := logged s @
                    [(msg_stack_overflow,
                      [if kind c = IsNpc then ''Npc''
                       else if kind c = IsMonster then ''Monster''
                       else if kind c = IsPlayer then ''Player'' else [],
                       creatureName c])]\<rparr>)"
  using full sid target
  by (simp add: startScriptInterface_def reserveScriptEnv_def getCreatureClass_def)

lemma gate_usable_after_overflow:
  assumes sid: "id2 \<noteq> - 1"
    and depth: "0 < maxDepth s" "length (scriptEnv s) = maxDepth s"
  shows "startScriptInterface cb2 id2 (resetScriptEnv (s\<lparr>logged := l\<rparr>)) =
           Inr (True,
                pushFunction id2
                  (s\<lparr>logged := l, scriptEnv := \<lparr>scriptId = id2\<rparr> # tl (scriptEnv s)\<rparr>))"
proof -
  have "length (tl (scriptEnv s)) < maxDepth s"
    using depth by simp
  then show ?thesis
    using sid
    by (simp add: startScriptInterface_def reserveScriptEnv_def resetScriptEnv_def
        setScriptId_def)
qed

text \<open>
  C5. The claim fails on a callback whose target creature is gone. With the call gate full
  and a valid script id, startScriptInterface does not return false and logs nothing: it
  reads the name of the creature through the null pointer. getCreatureClass, called on the
  same pointer one line above, tests it and gives the empty class.
\<close>

theorem stack_overflow_dead_target:
  "maxDepth sampleInterface \<le> length (scriptEnv sampleInterface)
   \<and> m_targetCreature expiredCallback = None
   \<and> startScriptInterface expiredCallback 12 sampleInterface = Inl NullDereference
   \<and> getCreatureClass (m_targetCreature expiredCallback) = []"
  by (simp add: startScriptInterface_def reserveScriptEnv_def sampleInterface_def
      expiredCallback_def getCreatureClass_def)

subsection \<open>Numeric kind of a custom attribute\<close>

lemma floor_less_iff_frac: "(of_int \<lfloor>d\<rfloor> < (d::real)) = (frac d \<noteq> 0)"
proof -
  have "of_int \<lfloor>d\<rfloor> \<le> d" by simp
  moreover have "(of_int \<lfloor>d\<rfloor> = d) = (frac d = 0)" by (auto simp: frac_def)
  ultimately show ?thesis by linarith
qed

lemma luaItemSetCustomAttribute_key:
  "luaItemSetCustomAttribute ld L w =
     (case getUserdataShared_Item w (arg L 1) of
        None \<Rightarrow> ([LNil], w)
      | Some item \<Rightarrow>
          (case customKey ld (arg L 2) of
             None \<Rightarrow> ([LNil], w)
           | Some key \<Rightarrow>
               (if isNumber (arg L 3) then
                  ([LBoolean True],
                   setCustomAttribute item key
                     (if frac (getNumber_double ld (arg L 3)) \<noteq> 0
                      then CADouble (getNumber_double ld (arg L 3))
                      else CAInt64 (getNumber_i64 ld (arg L 3))) w)
                else if isString (arg L 3) then
                  ([LBoolean True],
                   setCustomAttribute item key (CAString (getString ld (arg L 3))) w)
                else if isBoolean (arg L 3) then
                  ([LBoolean True],
                   setCustomAttribute item key (CABool (lua_toboolean (arg L 3))) w)
                else ([LNil], w))))"
  unfolding luaItemSetCustomAttribute_def Let_def
  by (simp add: floor_less_iff_frac cong: option.case_cong if_cong)

lemma luaItemGetCustomAttribute_key:
  "luaItemGetCustomAttribute ld L w =
     (case getUserdataShared_Item w (arg L 1) of
        None \<Rightarrow> ([LNil], w)
      | Some item \<Rightarrow>
          (case customKey ld (arg L 2) of
             None \<Rightarrow> ([LNil], w)
           | Some key \<Rightarrow> ([pushCustomAttribute (getCustomAttribute w item key)], w)))"
  unfolding luaItemGetCustomAttribute_def
  by (simp cong: option.case_cong)

lemma live_item_after_custom:
  assumes "getUserdataShared_Item w v = Some item"
  shows "getUserdataShared_Item (setCustomAttribute item k c w) v = Some item"
  using assms
  by (auto simp: getUserdataShared_Item_def setCustomAttribute_def updItem_def
      split: lua_value.splits option.splits)

lemma get_after_setCustom:
  assumes "getUserdataShared_Item w v = Some item"
  shows "getCustomAttribute (setCustomAttribute item k c w) item k' = (if k' = k then Some c else getCustomAttribute w item k')"
  using live_item_in_heap [OF assms]
  by (auto simp: getCustomAttribute_def setCustomAttribute_def updItem_def)

text \<open>
  C6. For a live item, a key that is a number or a string and a value that is a Lua
  number read as the double d: setCustomAttribute returns true and stores Double d when d
  has a non-zero fractional part and Int64 (the value read as a 64-bit integer) otherwise;
  getCustomAttribute on the same key then hands back the stored value, d itself in the
  first case and the integer in the second.
\<close>

theorem custom_numeric_kind:
  assumes item: "getUserdataShared_Item w (arg L 1) = Some item"
    and key: "customKey ld (arg L 2) = Some key"
    and num: "isNumber (arg L 3)"
    and L': "arg L' 1 = arg L 1" "arg L' 2 = arg L 2"
  shows "fst (luaItemSetCustomAttribute ld L w) = [LBoolean True]
       \<and> getCustomAttribute (snd (luaItemSetCustomAttribute ld L w)) item key =
           Some (if frac (getNumber_double ld (arg L 3)) \<noteq> 0
                 then CADouble (getNumber_double ld (arg L 3))
                 else CAInt64 (getNumber_i64 ld (arg L 3)))
       \<and> fst (luaItemGetCustomAttribute ld L' (snd (luaItemSetCustomAttribute ld L w))) =
           [if frac (getNumber_double ld (arg L 3)) \<noteq> 0
            then LNumber (getNumber_double ld (arg L 3))
            else LNumber (of_int (sint (getNumber_i64 ld (arg L 3))))]"
proof -
  let ?d = "getNumber_double ld (arg L 3)"
  let ?c = "if frac ?d \<noteq> 0 then CADouble ?d else CAInt64 (getNumber_i64 ld (arg L 3))"
  have set: "luaItemSetCustomAttribute ld L w = ([LBoolean True], setCustomAttribute item key ?c w)"
    using item key num by (simp add: luaItemSetCustomAttribute_key)
  have stored: "getCustomAttribute (setCustomAttribute item key c w) item key = Some c" for c
    using get_after_setCustom [OF item] by simp
  have get: "fst (luaItemGetCustomAttribute ld L' (setCustomAttribute item key c w)) = [pushToLua c]" for c
    using live_item_after_custom [OF item] key L' stored
    by (simp add: luaItemGetCustomAttribute_key pushCustomAttribute_def)
  show ?thesis
  proof (cases "frac ?d = 0")
    case True
    then show ?thesis by (simp only: set fst_conv snd_conv get stored) simp
  next
    case False
    then show ?thesis by (simp only: set fst_conv snd_conv get stored) simp
  qed
qed

theorem custom_numeric_kind_witness:
  "getCustomAttribute
     (snd (luaItemSetCustomAttribute sampleLoader [LUserdata 0, LString ''k'', LNumber (5 / 2)] sampleWorld))
     7 ''k'' = Some (CADouble (5 / 2))
   \<and> fst (luaItemGetCustomAttribute sampleLoader [LUserdata 0, LString ''k'']
        (snd (luaItemSetCustomAttribute sampleLoader [LUserdata 0, LString ''k'', LNumber (5 / 2)] sampleWorld)))
     = [LNumber (5 / 2)]
   \<and> getCustomAttribute
     (snd (luaItemSetCustomAttribute sampleLoader [LUserdata 0, LString ''k'', LNumber 4] sampleWorld))
     7 ''k'' = Some (CAInt64 4)
   \<and> fst (luaItemGetCustomAttribute sampleLoader [LUserdata 0, LString ''k'']
        (snd (luaItemSetCustomAttribute sampleLoader [LUserdata 0, LString ''k'', LNumber 4] sampleWorld)))
     = [LNumber 4]"
proof -
  have key: "customKey sampleLoader (arg [LUserdata 0, LString ''k'', v] 2) = Some ''k''" for v
    by (simp add: customKey_def arg_def isNumber_def isString_def sampleLoader_def)
  have args: "isNumber (arg [LUserdata 0, LString ''k'', LNumber x] 3)"
    "arg [LUserdata 0, LString ''k''] 1 = arg [LUserdata 0, LString ''k'', LNumber x] 1"
    "arg [LUserdata 0, LString ''k''] 2 = arg [LUserdata 0, LString ''k'', LNumber x] 2" for x
    by (simp_all add: arg_def isNumber_def)
  have rd: "getNumber_double sampleLoader (arg [LUserdata 0, LString ''k'', LNumber x] 3) = x"
    "getNumber_i64 sampleLoader (arg [LUserdata 0, LString ''k'', LNumber x] 3) = word_of_int \<lfloor>x\<rfloor>" for x
    by (simp_all add: arg_def sampleLoader_def)
  have fr: "frac (5 / 2 :: real) \<noteq> 0" "frac (4 :: real) = 0"
    by (simp_all add: frac_def)
  note a = custom_numeric_kind [OF sample_item_live key [of "LNumber (5 / 2)"] args [of "5 / 2"]]
  note b = custom_numeric_kind [OF sample_item_live key [of "LNumber 4"] args [of 4]]
  have a': "getCustomAttribute
     (snd (luaItemSetCustomAttribute sampleLoader [LUserdata 0, LString ''k'', LNumber (5 / 2)] sampleWorld))
     7 ''k'' = Some (CADouble (5 / 2))
   \<and> fst (luaItemGetCustomAttribute sampleLoader [LUserdata 0, LString ''k'']
        (snd (luaItemSetCustomAttribute sampleLoader [LUserdata 0, LString ''k'', LNumber (5 / 2)] sampleWorld)))
     = [LNumber (5 / 2)]"
    using a unfolding rd by (simp only: fr if_True not_False_eq_True) 
  have b': "getCustomAttribute
     (snd (luaItemSetCustomAttribute sampleLoader [LUserdata 0, LString ''k'', LNumber 4] sampleWorld))
     7 ''k'' = Some (CAInt64 4)
   \<and> fst (luaItemGetCustomAttribute sampleLoader [LUserdata 0, LString ''k'']
        (snd (luaItemSetCustomAttribute sampleLoader [LUserdata 0, LString ''k'', LNumber 4] sampleWorld)))
     = [LNumber 4]"
    using b unfolding rd by (simp add: fr)
  show ?thesis using a' b' by blast
qed

subsection \<open>Hazard flags\<close>

text \<open>
  C7. For a live monster and each of the four hazard modifiers, the call with a boolean b
  stores b in the monster's flag and returns b; the call without an argument returns the
  stored flag and changes nothing.
\<close>

theorem hazard_set_then_return:
  assumes live: "getUserdataShared_Monster w a = Some monster"
    and m: "monsters w monster = Some m"
  shows "luaMonsterHazardCrit [a, LBoolean b] w =
           ([LBoolean b], w\<lparr>monsters := (monsters w)(monster \<mapsto> m\<lparr>hazardCrit := b\<rparr>)\<rparr>)
       \<and> luaMonsterHazardDodge [a, LBoolean b] w =
           ([LBoolean b], w\<lparr>monsters := (monsters w)(monster \<mapsto> m\<lparr>hazardDodge := b\<rparr>)\<rparr>)
       \<and> luaMonsterHazardDamageBoost [a, LBoolean b] w =
           ([LBoolean b], w\<lparr>monsters := (monsters w)(monster \<mapsto> m\<lparr>hazardDamageBoost := b\<rparr>)\<rparr>)
       \<and> luaMonsterHazardDefenseBoost [a, LBoolean b] w =
           ([LBoolean b], w\<lparr>monsters := (monsters w)(monster \<mapsto> m\<lparr>hazardDefenseBoost := b\<rparr>)\<rparr>)
       \<and> luaMonsterHazardCrit [a] w = ([LBoolean (hazardCrit m)], w)
       \<and> luaMonsterHazardDodge [a] w = ([LBoolean (hazardDodge m)], w)
       \<and> luaMonsterHazardDamageBoost [a] w = ([LBoolean (hazardDamageBoost m)], w)
       \<and> luaMonsterHazardDefenseBoost [a] w = ([LBoolean (hazardDefenseBoost m)], w)"
proof -
  have crit: "luaMonsterHazardCrit [a, LBoolean b] w =
           ([LBoolean b], w\<lparr>monsters := (monsters w)(monster \<mapsto> m\<lparr>hazardCrit := b\<rparr>)\<rparr>)"
    using live m
    by (simp add: luaMonsterHazardCrit_def arg_def lua_gettop_def getBoolean_def lua_toboolean_def updMonster_def readMonster_def)
  have dodge: "luaMonsterHazardDodge [a, LBoolean b] w =
           ([LBoolean b], w\<lparr>monsters := (monsters w)(monster \<mapsto> m\<lparr>hazardDodge := b\<rparr>)\<rparr>)"
    using live m
    by (simp add: luaMonsterHazardDodge_def arg_def lua_gettop_def getBoolean_def lua_toboolean_def updMonster_def readMonster_def)
  have dmg: "luaMonsterHazardDamageBoost [a, LBoolean b] w =
           ([LBoolean b], w\<lparr>monsters := (monsters w)(monster \<mapsto> m\<lparr>hazardDamageBoost := b\<rparr>)\<rparr>)"
    using live m
    by (simp add: luaMonsterHazardDamageBoost_def arg_def lua_gettop_def getBoolean_def lua_toboolean_def updMonster_def readMonster_def)
  have def: "luaMonsterHazardDefenseBoost [a, LBoolean b] w =
           ([LBoolean b], w\<lparr>monsters := (monsters w)(monster \<mapsto> m\<lparr>hazardDefenseBoost := b\<rparr>)\<rparr>)"
    using live m
    by (simp add: luaMonsterHazardDefenseBoost_def arg_def lua_gettop_def getBoolean_def lua_toboolean_def updMonster_def readMonster_def)
  have gets: "luaMonsterHazardCrit [a] w = ([LBoolean (hazardCrit m)], w)"
    "luaMonsterHazardDodge [a] w = ([LBoolean (hazardDodge m)], w)"
    "luaMonsterHazardDamageBoost [a] w = ([LBoolean (hazardDamageBoost m)], w)"
    "luaMonsterHazardDefenseBoost [a] w = ([LBoolean (hazardDefenseBoost m)], w)"
    using live m
    by (simp_all add: luaMonsterHazardCrit_def luaMonsterHazardDodge_def
        luaMonsterHazardDamageBoost_def luaMonsterHazardDefenseBoost_def arg_def
        lua_gettop_def readMonster_def)
  show ?thesis
    using crit dodge dmg def gets by simp
qed

theorem hazard_set_then_return_witness:
  "luaMonsterHazardCrit [LUserdata 0, LBoolean True] monsterWorld =
     ([LBoolean True],
      monsterWorld\<lparr>monsters := [3 \<mapsto> sampleMonster\<lparr>hazardCrit := True\<rparr>]\<rparr>)
   \<and> luaMonsterHazardDodge [LUserdata 0] monsterWorld = ([LBoolean False], monsterWorld)"
proof -
  have live: "getUserdataShared_Monster monsterWorld (LUserdata 0) = Some 3"
    by (simp add: getUserdataShared_Monster_def monsterWorld_def)
  have m: "monsters monsterWorld 3 = Some sampleMonster"
    by (simp add: monsterWorld_def)
  have upd: "(monsters monsterWorld)(3 \<mapsto> x) = [3 \<mapsto> x]" for x
    by (simp add: monsterWorld_def)
  have f: "hazardDodge sampleMonster = False"
    by (simp add: sampleMonster_def)
  show ?thesis
    using hazard_set_then_return [OF live m, of True] by (simp add: upd f)
qed

subsection \<open>Handles that do not resolve\<close>

lemma item_bindings_unresolved:
  assumes "getUserdataShared_Item w (arg L 1) = None"
  shows "luaItemIsItem L w = ([LBoolean False], w)"
    and "luaItemGetContainer onLive L w = ([LNil], w)"
    and "luaItemGetParent onLive L w = ([LNil], w)"
    and "luaItemGetTopParent onLive L w = ([LNil], w)"
    and "luaItemGetId onLive L w = ([LNil], w)"
    and "luaItemClone onLive L w = ([LNil], w)"
    and "luaItemRemove onLive L w = ([LNil], w)"
    and "luaItemGetUniqueId onLive L w = ([LNil], w)"
    and "luaItemGetActionId onLive L w = ([LNil], w)"
    and "luaItemSetActionId ld L w = ([LNil], w)"
    and "luaItemGetCount onLive L w = ([LNil], w)"
    and "luaItemGetCharges onLive L w = ([LNil], w)"
    and "luaItemGetFluidType onLive L w = ([LNil], w)"
    and "luaItemGetWeight onLive L w = ([LNil], w)"
    and "luaItemGetSubType onLive L w = ([LNil], w)"
    and "luaItemGetName onLive L w = ([LNil], w)"
    and "luaItemGetPluralName onLive L w = ([LNil], w)"
    and "luaItemGetArticle onLive L w = ([LNil], w)"
    and "luaItemGetPosition onLive L w = ([LNil], w)"
    and "luaItemGetTile onLive L w = ([LNil], w)"
    and "luaItemHasAttribute onLive L w = ([LNil], w)"
    and "luaItemGetAttribute onLive L w = ([LNil], w)"
    and "luaItemSetAttribute ld L w = ([LNil], w)"
    and "luaItemRemoveAttribute ld L w = ([LNil], w)"
    and "luaItemGetCustomAttribute ld L w = ([LNil], w)"
    and "luaItemSetCustomAttribute ld L w = ([LNil], w)"
    and "luaItemRemoveCustomAttribute onLive L w = ([LNil], w)"
    and "luaItemCanBeMoved onLive L w = ([LNil], w)"
    and "luaItemSerializeAttributes onLive L w = ([LNil], w)"
    and "luaItemDecay onLive L w = ([LNil], w)"
    and "luaItemMoveToSlot onLive L w = ([LNil], w)"
    and "luaItemGetDescription onLive L w = ([LNil], w)"
    and "luaItemHasProperty onLive L w = ([LNil], w)"
    and "luaItemGetImbuement onLive L w = ([LBoolean False], reportErrorFunc (ErrorDesc LUA_ERROR_ITEM_NOT_FOUND) w)"
    and "luaItemGetImbuementSlot onLive L w = ([LBoolean False], reportErrorFunc (ErrorDesc LUA_ERROR_ITEM_NOT_FOUND) w)"
    and "luaItemSetDuration onLive L w = ([LBoolean False], reportErrorFunc (ErrorDesc LUA_ERROR_ITEM_NOT_FOUND) w)"
    and "luaItemIsInsideDepot onLive L w = ([LBoolean False], reportErrorFunc (ErrorDesc LUA_ERROR_ITEM_NOT_FOUND) w)"
    and "luaItemIsContainer onLive L w = ([LBoolean False], reportErrorFunc (ErrorDesc LUA_ERROR_ITEM_NOT_FOUND) w)"
    and "luaItemGetTier onLive L w = ([LBoolean False], reportErrorFunc (ErrorDesc LUA_ERROR_ITEM_NOT_FOUND) w)"
    and "luaItemSetTier onLive L w = ([LBoolean False], reportErrorFunc (ErrorDesc LUA_ERROR_ITEM_NOT_FOUND) w)"
    and "luaItemGetClassification onLive L w = ([LBoolean False], reportErrorFunc (ErrorDesc LUA_ERROR_ITEM_NOT_FOUND) w)"
    and "luaItemCanReceiveAutoCarpet onLive L w = ([LBoolean False], reportErrorFunc (ErrorDesc LUA_ERROR_ITEM_NOT_FOUND) w)"
    and "luaItemSetOwner onLive L w = ([], reportErrorFunc (ErrorDesc LUA_ERROR_ITEM_NOT_FOUND) w)"
    and "luaItemGetOwnerId L w = ([], reportErrorFunc (ErrorDesc LUA_ERROR_ITEM_NOT_FOUND) w)"
    and "luaItemIsOwner onLive L w = ([], reportErrorFunc (ErrorDesc LUA_ERROR_ITEM_NOT_FOUND) w)"
    and "luaItemGetOwnerName onLive L w = ([], reportErrorFunc (ErrorDesc LUA_ERROR_ITEM_NOT_FOUND) w)"
    and "luaItemHasOwner L w = (lua_return L [] 1, reportErrorFunc (ErrorDesc LUA_ERROR_ITEM_NOT_FOUND) w)"
  using assms
  by (simp_all add: luaItemIsItem_def
      luaItemGetContainer_def
      luaItemGetParent_def
      luaItemGetTopParent_def
      luaItemGetId_def
      luaItemClone_def
      luaItemRemove_def
      luaItemGetUniqueId_def
      luaItemGetActionId_def
      luaItemSetActionId_def
      luaItemGetCount_def
      luaItemGetCharges_def
      luaItemGetFluidType_def
      luaItemGetWeight_def
      luaItemGetSubType_def
      luaItemGetName_def
      luaItemGetPluralName_def
      luaItemGetArticle_def
      luaItemGetPosition_def
      luaItemGetTile_def
      luaItemHasAttribute_def
      luaItemGetAttribute_def
      luaItemSetAttribute_def
      luaItemRemoveAttribute_def
      luaItemGetCustomAttribute_def
      luaItemSetCustomAttribute_def
      luaItemRemoveCustomAttribute_def
      luaItemCanBeMoved_def
      luaItemSerializeAttributes_def
      luaItemDecay_def
      luaItemMoveToSlot_def
      luaItemGetDescription_def
      luaItemHasProperty_def
      luaItemGetImbuement_def
      luaItemGetImbuementSlot_def
      luaItemSetDuration_def
      luaItemIsInsideDepot_def
      luaItemIsContainer_def
      luaItemGetTier_def
      luaItemSetTier_def
      luaItemGetClassification_def
      luaItemCanReceiveAutoCarpet_def
      luaItemSetOwner_def
      luaItemGetOwnerId_def
      luaItemIsOwner_def
      luaItemGetOwnerName_def
      luaItemHasOwner_def)

lemma monster_bindings_unresolved:
  assumes "getUserdataShared_Monster w (arg L 1) = None"
  shows "luaMonsterIsMonster L w = ([LBoolean False], w)"
    and "luaMonsterGetType onLive L w = ([LNil], w)"
    and "luaMonsterSetType onLiveB L w = ([LNil], w)"
    and "luaMonsterGetSpawnPosition onLive L w = ([LNil], w)"
    and "luaMonsterIsInSpawnRange onLive L w = ([LNil], w)"
    and "luaMonsterIsIdle onLive L w = ([LNil], w)"
    and "luaMonsterSetIdle onLive L w = ([LNil], w)"
    and "luaMonsterIsTarget onLive L w = ([LNil], w)"
    and "luaMonsterIsOpponent onLive L w = ([LNil], w)"
    and "luaMonsterIsFriend onLive L w = ([LNil], w)"
    and "luaMonsterAddFriend onLive L w = ([LNil], w)"
    and "luaMonsterRemoveFriend onLive L w = ([LNil], w)"
    and "luaMonsterGetFriendList onLive L w = ([LNil], w)"
    and "luaMonsterGetFriendCount onLive L w = ([LNil], w)"
    and "luaMonsterAddTarget onLive L w = ([LNil], w)"
    and "luaMonsterRemoveTarget onLive L w = ([LNil], w)"
    and "luaMonsterGetTargetList onLive L w = ([LNil], w)"
    and "luaMonsterGetTargetCount onLive L w = ([LNil], w)"
    and "luaMonsterChangeTargetDistance onLive L w = ([LNil], w)"
    and "luaMonsterIsChallenged onLive L w = ([LNil], w)"
    and "luaMonsterSelectTarget onLive L w = ([LNil], w)"
    and "luaMonsterSearchTarget onLive L w = ([LNil], w)"
    and "luaMonsterSetSpawnPosition onLive L w = ([LNil], w)"
    and "luaMonsterGetRespawnType onLive L w = ([LNil], w)"
    and "luaMonsterGetTimeToChangeFiendish onLive L w = ([], reportErrorFunc (ErrorDesc LUA_ERROR_MONSTER_NOT_FOUND) w)"
    and "luaMonsterSetTimeToChangeFiendish ld onLiveN L w = ([], reportErrorFunc (ErrorDesc LUA_ERROR_MONSTER_NOT_FOUND) w)"
    and "luaMonsterGetMonsterForgeClassification onLive L w = ([], reportErrorFunc (ErrorDesc LUA_ERROR_MONSTER_NOT_FOUND) w)"
    and "luaMonsterSetMonsterForgeClassification rd onLiveN L w = ([], reportErrorFunc (ErrorDesc LUA_ERROR_MONSTER_NOT_FOUND) w)"
    and "luaMonsterGetForgeStack onLive L w = ([], reportErrorFunc (ErrorDesc LUA_ERROR_MONSTER_NOT_FOUND) w)"
    and "luaMonsterSetForgeStack ld L w = ([], reportErrorFunc (ErrorDesc LUA_ERROR_MONSTER_NOT_FOUND) w)"
    and "luaMonsterConfigureForgeSystem onLive L w = ([], reportErrorFunc (ErrorDesc LUA_ERROR_MONSTER_NOT_FOUND) w)"
    and "luaMonsterClearFiendishStatus onLive L w = ([], reportErrorFunc (ErrorDesc LUA_ERROR_MONSTER_NOT_FOUND) w)"
    and "luaMonsterIsForgeable onLive L w = ([], reportErrorFunc (ErrorDesc LUA_ERROR_MONSTER_NOT_FOUND) w)"
    and "luaMonsterGetName L w = ([], reportErrorFunc (ErrorDesc LUA_ERROR_MONSTER_NOT_FOUND) w)"
    and "luaMonsterSetName onLive L w = ([], reportErrorFunc (ErrorDesc LUA_ERROR_MONSTER_NOT_FOUND) w)"
    and "luaMonsterHazard L w = ([LNil], w)"
    and "luaMonsterHazardCrit L w = ([LNil], w)"
    and "luaMonsterHazardDodge L w = ([LNil], w)"
    and "luaMonsterHazardDamageBoost L w = ([LNil], w)"
    and "luaMonsterHazardDefenseBoost L w = ([LNil], w)"
    and "luaMonsterAddReflectElement onLive L w = ([], reportErrorFunc (ErrorDesc LUA_ERROR_MONSTER_NOT_FOUND) w)"
    and "luaMonsterAddDefense onLive L w = ([], reportErrorFunc (ErrorDesc LUA_ERROR_MONSTER_NOT_FOUND) w)"
    and "luaMonsterGetDefense onLive L w = ([], reportErrorFunc (ErrorDesc LUA_ERROR_MONSTER_NOT_FOUND) w)"
    and "luaMonsterIsDead onLive L w = ([], reportErrorFunc (ErrorDesc LUA_ERROR_MONSTER_NOT_FOUND) w)"
    and "luaMonsterImmune onLive L w = ([], reportErrorFunc (ErrorDesc LUA_ERROR_MONSTER_NOT_FOUND) w)"
  using assms
  by (simp_all add: luaMonsterIsMonster_def
      luaMonsterGetType_def
      luaMonsterSetType_def
      luaMonsterGetSpawnPosition_def
      luaMonsterIsInSpawnRange_def
      luaMonsterIsIdle_def
      luaMonsterSetIdle_def
      luaMonsterIsTarget_def
      luaMonsterIsOpponent_def
      luaMonsterIsFriend_def
      luaMonsterAddFriend_def
      luaMonsterRemoveFriend_def
      luaMonsterGetFriendList_def
      luaMonsterGetFriendCount_def
      luaMonsterAddTarget_def
      luaMonsterRemoveTarget_def
      luaMonsterGetTargetList_def
      luaMonsterGetTargetCount_def
      luaMonsterChangeTargetDistance_def
      luaMonsterIsChallenged_def
      luaMonsterSelectTarget_def
      luaMonsterSearchTarget_def
      luaMonsterSetSpawnPosition_def
      luaMonsterGetRespawnType_def
      luaMonsterGetTimeToChangeFiendish_def
      luaMonsterSetTimeToChangeFiendish_def
      luaMonsterGetMonsterForgeClassification_def
      luaMonsterSetMonsterForgeClassification_def
      luaMonsterGetForgeStack_def
      luaMonsterSetForgeStack_def
      luaMonsterConfigureForgeSystem_def
      luaMonsterClearFiendishStatus_def
      luaMonsterIsForgeable_def
      luaMonsterGetName_def
      luaMonsterSetName_def
      luaMonsterHazard_def
      luaMonsterHazardCrit_def
      luaMonsterHazardDodge_def
      luaMonsterHazardDamageBoost_def
      luaMonsterHazardDefenseBoost_def
      luaMonsterAddReflectElement_def
      luaMonsterAddDefense_def
      luaMonsterGetDefense_def
      luaMonsterIsDead_def
      luaMonsterImmune_def)

lemma vocation_bindings_unresolved:
  assumes "getUserdataShared_Vocation w (arg L 1) = None"
  shows "luaVocationGetId L w = ([LNil], w)"
    and "luaVocationGetClientId onLive L w = ([LNil], w)"
    and "luaVocationGetBaseId onLive L w = ([LNil], w)"
    and "luaVocationGetName onLive L w = ([LNil], w)"
    and "luaVocationGetDescription onLive L w = ([LNil], w)"
    and "luaVocationGetRequiredSkillTries onLive L w = ([LNil], w)"
    and "luaVocationGetRequiredManaSpent onLive L w = ([LNil], w)"
    and "luaVocationGetCapacityGain onLive L w = ([LNil], w)"
    and "luaVocationGetHealthGain onLive L w = ([LNil], w)"
    and "luaVocationGetHealthGainTicks onLive L w = ([LNil], w)"
    and "luaVocationGetHealthGainAmount onLive L w = ([LNil], w)"
    and "luaVocationGetManaGain onLive L w = ([LNil], w)"
    and "luaVocationGetManaGainTicks onLive L w = ([LNil], w)"
    and "luaVocationGetManaGainAmount onLive L w = ([LNil], w)"
    and "luaVocationGetMaxSoul onLive L w = ([LNil], w)"
    and "luaVocationGetSoulGainTicks onLive L w = ([LNil], w)"
    and "luaVocationGetBaseAttackSpeed onLive L w = ([LNil], w)"
    and "luaVocationGetAttackSpeed onLive L w = ([LNil], w)"
    and "luaVocationGetBaseSpeed onLive L w = ([LNil], w)"
    and "luaVocationGetDemotion onLive L w = ([LNil], w)"
    and "luaVocationGetPromotion onLive L w = ([LNil], w)"
  using assms
  by (simp_all add: luaVocationGetId_def
      luaVocationGetClientId_def
      luaVocationGetBaseId_def
      luaVocationGetName_def
      luaVocationGetDescription_def
      luaVocationGetRequiredSkillTries_def
      luaVocationGetRequiredManaSpent_def
      luaVocationGetCapacityGain_def
      luaVocationGetHealthGain_def
      luaVocationGetHealthGainTicks_def
      luaVocationGetHealthGainAmount_def
      luaVocationGetManaGain_def
      luaVocationGetManaGainTicks_def
      luaVocationGetManaGainAmount_def
      luaVocationGetMaxSoul_def
      luaVocationGetSoulGainTicks_def
      luaVocationGetBaseAttackSpeed_def
      luaVocationGetAttackSpeed_def
      luaVocationGetBaseSpeed_def
      luaVocationGetDemotion_def
      luaVocationGetPromotion_def)

lemma raw_item_bindings_unresolved:
  assumes "noRawItem c L w"
  shows "luaItemSplit g ld L w = ([LNil], w)"
    and "luaItemMoveTo onLive L w = ([LNil], w)"
    and "luaItemTransform g ld L w = ([LNil], w)"
  using assms
  by (auto simp: noRawItem_def luaItemSplit_def luaItemMoveTo_def luaItemTransform_def
      split: option.splits)

lemma constructors_unresolved:
  "noItemByUID c L w \<Longrightarrow> luaItemCreate (loader c) L w = ([LNil], w)"
  "noMonsterArgument c L w \<Longrightarrow>
     luaMonsterCreate (getMonsterByID c) (loader c) L w = ([LNil], w)"
  "noVocationArgument c L w \<Longrightarrow>
     luaVocationCreate (getVocationId c) (getVocation c) (loader c) L w = ([LNil], w)"
  by (simp_all add: noItemByUID_def noMonsterArgument_def noVocationArgument_def
      luaItemCreate_def luaMonsterCreate_def luaVocationCreate_def)

lemma item_bindings_report:
  "\<forall>(name, unresolved, run) \<in> set itemBindings.
     \<forall>c L w. unresolved c L w \<longrightarrow> notFoundOutcome name (run c L w) w"
  unfolding itemBindings_def
  by (simp add: notFoundOutcome_def noItem_def item_bindings_unresolved
      raw_item_bindings_unresolved constructors_unresolved reportErrorFunc_def call_def)

lemma monster_bindings_report:
  "\<forall>(name, unresolved, run) \<in> set monsterBindings.
     \<forall>c L w. unresolved c L w \<longrightarrow> notFoundOutcome name (run c L w) w"
  unfolding monsterBindings_def
  by (simp add: notFoundOutcome_def noMonster_def monster_bindings_unresolved
      constructors_unresolved reportErrorFunc_def call_def)

lemma vocation_bindings_report:
  "\<forall>(name, unresolved, run) \<in> set vocationBindings.
     \<forall>c L w. unresolved c L w \<longrightarrow> notFoundOutcome name (run c L w) w"
  unfolding vocationBindings_def
  by (simp add: notFoundOutcome_def noVocation_def vocation_bindings_unresolved
      constructors_unresolved)

text \<open>
  C8 (as amended). Every binding of the three files, when its handle does not resolve,
  changes nothing but the error log and either returns nil, or reports the not-found error
  and returns false or no result (the result of hasOwner apart, which is left open), or,
  for isItem and isMonster only, returns false without a report.
\<close>

theorem not_found_reporting:
  "\<forall>(name, unresolved, run) \<in> set bindings.
     \<forall>c L w. unresolved c L w \<longrightarrow> notFoundOutcome name (run c L w) w"
  unfolding bindings_def set_append
  using item_bindings_report monster_bindings_report vocation_bindings_report
  by blast

theorem not_found_reporting_witness:
  "(''luaItemGetTier'', noItem, \<lambda>c. luaItemGetTier (live c ''luaItemGetTier'')) \<in> set bindings
   \<and> noItem sampleCollaborators [LUserdata 5] sampleWorld
   \<and> notFoundOutcome ''luaItemGetTier''
        (luaItemGetTier (live sampleCollaborators ''luaItemGetTier'') [LUserdata 5] sampleWorld)
        sampleWorld
   \<and> (''luaMonsterGetName'', noMonster, \<lambda>c. luaMonsterGetName) \<in> set bindings
   \<and> noMonster sampleCollaborators [LUserdata 5] monsterWorld
   \<and> notFoundOutcome ''luaMonsterGetName'' (luaMonsterGetName [LUserdata 5] monsterWorld)
        monsterWorld"
proof -
  have row: "(''luaItemGetTier'', noItem, \<lambda>c. luaItemGetTier (live c ''luaItemGetTier''))
               \<in> set bindings"
    by (simp add: bindings_def itemBindings_def)
  have stale: "noItem sampleCollaborators [LUserdata 5] sampleWorld"
    by (simp add: noItem_def getUserdataShared_Item_def arg_def sampleWorld_def)
  have row2: "(''luaMonsterGetName'', noMonster, \<lambda>c. luaMonsterGetName) \<in> set bindings"
    by (simp add: bindings_def monsterBindings_def)
  have stale2: "noMonster sampleCollaborators [LUserdata 5] monsterWorld"
    by (simp add: noMonster_def getUserdataShared_Monster_def arg_def monsterWorld_def)
  note t = not_found_reporting
  have a: "notFoundOutcome ''luaItemGetTier''
        (luaItemGetTier (live sampleCollaborators ''luaItemGetTier'') [LUserdata 5] sampleWorld)
        sampleWorld"
    using bspec [OF t row] stale by simp
  have b: "notFoundOutcome ''luaMonsterGetName'' (luaMonsterGetName [LUserdata 5] monsterWorld)
        monsterWorld"
    using bspec [OF t row2] stale2 by simp
  show ?thesis
    using row stale a row2 stale2 b by simp
qed

text \<open>
  item:isItem() on a handle that does not resolve returns false, not nil, and reports no
  error.
\<close>

theorem is_item_returns_false:
  "luaItemIsItem [LUserdata 5] sampleWorld = ([LBoolean False], sampleWorld)
   \<and> calls sampleWorld = []"
  by (simp add: luaItemIsItem_def getUserdataShared_Item_def arg_def sampleWorld_def)

subsection \<open>Transform to the same type\<close>

text \<open>
  C9. For a live item, transform called with the item's own id and with a subtype that is
  absent, -1 or the item's own subtype returns true and leaves the world as it was.
\<close>

theorem transform_same_type_unchanged:
  assumes "arg L 1 = LUserdata u"
    and "derefItem w u = Some (item, it)"
    and "isNumber (arg L 2)"
    and "getNumber_u16 ld (arg L 2) = getID it"
    and "getNumberOr (getNumber_i32 ld) L 3 (- 1) = - 1
         \<or> getNumberOr (getNumber_i32 ld) L 3 (- 1) = subType it"
  shows "luaItemTransform g ld L w = ([LBoolean True], w)"
proof -
  have "getRawUserData w (arg L 1) = Some u"
    using assms(1,2) by (auto simp: getRawUserData_def derefItem_def split: option.splits)
  then show ?thesis
    using assms by (auto simp: luaItemTransform_def Let_def)
qed

theorem transform_same_type_unchanged_witness:
  "luaItemTransform sampleGame sampleLoader [LUserdata 0, LNumber 3031] sampleWorld =
     ([LBoolean True], sampleWorld)
   \<and> luaItemTransform sampleGame sampleLoader [LUserdata 0, LNumber 3031, LNumber 10] sampleWorld =
     ([LBoolean True], sampleWorld)"
proof -
  have live: "derefItem sampleWorld 0 = Some (7, sampleItem)"
    by (simp add: derefItem_def sampleWorld_def)
  have args: "arg (LUserdata 0 # LNumber 3031 # rest) 1 = LUserdata 0"
    "isNumber (arg (LUserdata 0 # LNumber 3031 # rest) 2)"
    "getNumber_u16 sampleLoader (arg (LUserdata 0 # LNumber 3031 # rest) 2) = getID sampleItem" for rest
    by (simp_all add: arg_def isNumber_def sampleLoader_def sampleItem_def)
  have sub: "getNumberOr (getNumber_i32 sampleLoader) [LUserdata 0, LNumber 3031] 3 (- 1) = - 1"
    "getNumberOr (getNumber_i32 sampleLoader) [LUserdata 0, LNumber 3031, LNumber 10] 3 (- 1)
       = subType sampleItem"
    by (simp_all add: getNumberOr_def lua_gettop_def arg_def sampleLoader_def sampleItem_def)
  show ?thesis
    using transform_same_type_unchanged [OF args(1) live args(2) args(3) disjI1 [OF sub(1)],
        where g = sampleGame]
      transform_same_type_unchanged [OF args(1) live args(2) args(3) disjI2 [OF sub(2)],
        where g = sampleGame]
    by simp
qed

subsection \<open>Numeric and string keys of custom attributes\<close>




end
